theory Spec2Isabelle
  imports Main
begin

section \<open>The request gateway of \<^verbatim>\<open>app.py\<close>\<close>

text \<open>
  \<^verbatim>\<open>app.py\<close> is a FastAPI application with one dependency (\<^verbatim>\<open>get_api_key\<close>) and two
  handlers (\<^verbatim>\<open>ask_question\<close> for \<^verbatim>\<open>POST /ask\<close>, \<^verbatim>\<open>process_feedback\<close> for
  \<^verbatim>\<open>POST /feedback\<close>). Everything else is done by the collaborators \<^verbatim>\<open>rag\<close> and
  \<^verbatim>\<open>submit_feedback\<close>, which are imported from modules outside this file; they are
  parameters of the model: functions that either raise or return a Python value.
\<close>

subsection \<open>Python values\<close>

text \<open>
  The values that travel through the handlers: the collaborators' results, the session's
  entries and the response bodies. A float is carried as mantissa and exponent
  (\<open>m * 2 ^ e\<close>); the handlers never compute with one, they only forward it.
  A dictionary is an association list with string keys, read with \<open>map_of\<close>.
\<close>

datatype pyval =
    PNone
  | PBool bool
  | PInt int
  | PFloat int int
  | PStr string
  | PList "pyval list"
  | PDict "(string \<times> pyval) list"

text \<open>Python's truth value of an object, as \<^verbatim>\<open>not conversation_id\<close> tests it.\<close>

fun truthy :: "pyval \<Rightarrow> bool" where
  "truthy PNone = False"
| "truthy (PBool b) = b"
| "truthy (PInt i) = (i \<noteq> 0)"
| "truthy (PFloat m e) = (m \<noteq> 0)"
| "truthy (PStr s) = (s \<noteq> [])"
| "truthy (PList xs) = (xs \<noteq> [])"
| "truthy (PDict kvs) = (kvs \<noteq> [])"

subsection \<open>Exceptions\<close>

text \<open>
  The instances of Python's class \<^verbatim>\<open>Exception\<close> that the handlers meet; these are
  what a clause \<^verbatim>\<open>except Exception\<close> catches. (\<^verbatim>\<open>KeyboardInterrupt\<close> and
  \<^verbatim>\<open>SystemExit\<close>, which stop the server and are not instances of that class, are not
  part of the model.)
  \<^verbatim>\<open>HTTPException\<close> is the class the code names in \<^verbatim>\<open>except HTTPException\<close>; FastAPI
  turns an \<^verbatim>\<open>HTTPException(status_code=s, detail=d)\<close> that leaves a handler or a dependency
  into the response with status \<open>s\<close> and body \<^verbatim>\<open>{"detail": d}\<close>.
  \<open>KeyError\<close> and \<open>TypeError\<close> are what a subscript raises; \<open>OtherError cls msg\<close> is
  an instance of any other subclass \<open>cls\<close> of \<^verbatim>\<open>Exception\<close> whose \<^verbatim>\<open>str\<close> is \<open>msg\<close>.
  The outcome of a handler is \<open>Inl e\<close> when it raises \<open>e\<close> and \<open>Inr v\<close> when it
  returns \<open>v\<close>, which FastAPI sends as the body of a 200 response.
\<close>

datatype py_exception =
    HTTPException (status_code: int) (detail: pyval)
  | KeyError string
  | TypeError pyval
  | OtherError string string

type_synonym 'a outcome = "py_exception + 'a"

text \<open>\<^verbatim>\<open>isinstance(e, HTTPException)\<close>, the test of the clause \<^verbatim>\<open>except HTTPException\<close>.\<close>

fun is_HTTPException :: "py_exception \<Rightarrow> bool" where
  "is_HTTPException (HTTPException s d) = True"
| "is_HTTPException e = False"

text \<open>
  The constructor call \<^verbatim>\<open>HTTPException(status_code=500, detail=d)\<close>: the class's
  \<^verbatim>\<open>__init__\<close> (Starlette's) replaces a detail of \<^verbatim>\<open>None\<close> by the phrase of the
  status, \<^verbatim>\<open>http.HTTPStatus(500).phrase\<close>, and keeps every other detail. The program
  has one call whose detail is not a string literal, and its status is 500.
\<close>

definition HTTPException_500 :: "pyval \<Rightarrow> py_exception" where
  "HTTPException_500 d =
     HTTPException 500 (if d = PNone then PStr ''Internal Server Error'' else d)"

text \<open>\<^verbatim>\<open>d[k]\<close> for a string key: a dictionary without the key raises \<^verbatim>\<open>KeyError\<close>, and the
  other values of \<^typ>\<open>pyval\<close> do not take a string subscript.\<close>

fun subscript :: "pyval \<Rightarrow> string \<Rightarrow> pyval outcome" where
  "subscript (PDict kvs) k =
     (case map_of kvs k of None \<Rightarrow> Inl (KeyError k) | Some v \<Rightarrow> Inr v)"
| "subscript v k = Inl (TypeError v)"

text \<open>Sequencing of steps that may raise: the first exception ends the evaluation.\<close>

definition and_then :: "'a outcome \<Rightarrow> ('a \<Rightarrow> 'b outcome) \<Rightarrow> 'b outcome" where
  "and_then r f = (case r of Inl e \<Rightarrow> Inl e | Inr v \<Rightarrow> f v)"

subsection \<open>The state a request sees and changes\<close>

text \<open>
  A log message is the list of the pieces of its f-string: literal text, a formatted value
  (\<^verbatim>\<open>{v}\<close>) and the text of an exception (\<^verbatim>\<open>{str(e)}\<close>).
\<close>

datatype fragment = Lit string | Val pyval | ExcStr py_exception

datatype log_record = INFO "fragment list" | ERROR "fragment list"

datatype call = RagCall string | SubmitFeedbackCall pyval int

text \<open>
  \<open>session\<close> is \<^verbatim>\<open>request.session\<close>, the dictionary the session middleware keeps for one
  client across requests; \<open>logged\<close> is the server log; \<open>calls\<close> records every
  invocation of a collaborator, in order.
\<close>

record gateway_state =
  session :: "string \<rightharpoonup> pyval"
  logged :: "log_record list"
  calls :: "call list"

definition empty_state :: gateway_state where
  "empty_state = \<lparr>session = Map.empty, logged = [], calls = []\<rparr>"

definition logging_info :: "fragment list \<Rightarrow> gateway_state \<Rightarrow> gateway_state" where
  "logging_info msg w = w\<lparr>logged := logged w @ [INFO msg]\<rparr>"

definition logging_error :: "fragment list \<Rightarrow> gateway_state \<Rightarrow> gateway_state" where
  "logging_error msg w = w\<lparr>logged := logged w @ [ERROR msg]\<rparr>"

definition record_call :: "call \<Rightarrow> gateway_state \<Rightarrow> gateway_state" where
  "record_call c w = w\<lparr>calls := calls w @ [c]\<rparr>"

subsection \<open>Authentication\<close>

text \<open>
  \<^verbatim>\<open>os.getenv(name, default)\<close> over an environment given as a map.
\<close>

definition getenv :: "(string \<rightharpoonup> string) \<Rightarrow> string \<Rightarrow> string \<Rightarrow> string" where
  "getenv env name dflt = (case env name of None \<Rightarrow> dflt | Some v \<Rightarrow> v)"

text \<open>
  \<^verbatim>\<open>api_key_header = APIKeyHeader(name="X-API-Key", auto_error=False)\<close>, the dependency
  of \<^verbatim>\<open>get_api_key\<close>. FastAPI's class reads \<^verbatim>\<open>request.headers.get("X-API-Key")\<close> and,
  with \<^verbatim>\<open>auto_error=False\<close>, returns \<^verbatim>\<open>None\<close> when that value is falsy
  (\<^verbatim>\<open>if not api_key: return None\<close>) and the value otherwise. The argument is the header
  as the request carries it, \<open>None\<close> when the request has no such header.
\<close>

definition api_key_header :: "string option \<Rightarrow> string option" where
  "api_key_header header =
     (case header of None \<Rightarrow> None | Some v \<Rightarrow> if v = [] then None else Some v)"

text \<open>
  \<^verbatim>\<open>
  def get_api_key(api_key: Optional[str] = Depends(api_key_header)):
      if api_key is None or api_key == os.getenv("API_KEY", "your-api-key"):
          return api_key
      raise HTTPException(status_code=401, detail="Invalid API Key")
  \<close>
  The argument is what \<open>api_key_header\<close> delivers.
\<close>

definition get_api_key :: "(string \<rightharpoonup> string) \<Rightarrow> string option \<Rightarrow> string option outcome" where
  "get_api_key env api_key =
     (if api_key = None \<or> api_key = Some (getenv env ''API_KEY'' ''your-api-key'')
      then Inr api_key
      else Inl (HTTPException 401 (PStr ''Invalid API Key'')))"

subsection \<open>\<^verbatim>\<open>POST /ask\<close>\<close>

text \<open>
  The dictionary built by the \<^verbatim>\<open>return\<close> statement of \<^verbatim>\<open>ask_question\<close>; its six
  subscripts are evaluated in the order written.
\<close>

definition ask_response :: "pyval \<Rightarrow> pyval outcome" where
  "ask_response answer_data =
     and_then (subscript answer_data ''id'') (\<lambda>v_id.
     and_then (subscript answer_data ''answer'') (\<lambda>v_answer.
     and_then (subscript answer_data ''relevance'') (\<lambda>v_relevance.
     and_then (subscript answer_data ''response_time'') (\<lambda>v_response_time.
     and_then (subscript answer_data ''total_tokens'') (\<lambda>v_total_tokens.
     and_then (subscript answer_data ''openai_cost'') (\<lambda>v_openai_cost.
       Inr (PDict
         [(''conversation_id'', v_id),
          (''answer'', v_answer),
          (''relevance'', v_relevance),
          (''response_time'', v_response_time),
          (''total_tokens'', v_total_tokens),
          (''estimated_cost'', v_openai_cost)])))))))"

text \<open>
  The body of the \<^verbatim>\<open>try\<close> block of \<^verbatim>\<open>ask_question\<close>: log the question, call \<^verbatim>\<open>rag\<close>,
  log the id (the f-string reads \<^verbatim>\<open>answer_data['id']\<close> before anything is logged), store
  the id in the session, build the response.
\<close>

definition ask_question_try ::
  "(string \<Rightarrow> pyval outcome) \<Rightarrow> gateway_state \<Rightarrow> string \<Rightarrow> gateway_state \<times> pyval outcome" where
  "ask_question_try rag w question =
     (let w1 = logging_info [Lit ''Received question: '', Val (PStr question)] w;
          w2 = record_call (RagCall question) w1
      in case rag question of
           Inl e \<Rightarrow> (w2, Inl e)
         | Inr answer_data \<Rightarrow>
             (case subscript answer_data ''id'' of
                Inl e \<Rightarrow> (w2, Inl e)
              | Inr v_id \<Rightarrow>
                  (let w3 = logging_info [Lit ''Generated answer for conversation ID: '', Val v_id] w2;
                       w4 = w3\<lparr>session := (session w3)(''conversation_id'' \<mapsto> v_id)\<rparr>
                   in (w4, ask_response answer_data))))"

text \<open>
  \<^verbatim>\<open>ask_question\<close>: the \<^verbatim>\<open>try\<close> block under its one handler, \<^verbatim>\<open>except Exception as e\<close>,
  which logs the exception's text and raises the fixed 500.
\<close>

definition ask_question ::
  "(string \<Rightarrow> pyval outcome) \<Rightarrow> gateway_state \<Rightarrow> string \<Rightarrow> gateway_state \<times> pyval outcome" where
  "ask_question rag w question =
     (case ask_question_try rag w question of
        (w', Inl e) \<Rightarrow>
          (logging_error [Lit ''Error processing question: '', ExcStr e] w',
           Inl (HTTPException 500 (PStr ''Error processing your question'')))
      | (w', Inr body) \<Rightarrow> (w', Inr body))"

subsection \<open>\<^verbatim>\<open>POST /feedback\<close>\<close>

text \<open>
  The body of the \<^verbatim>\<open>try\<close> block of \<^verbatim>\<open>process_feedback\<close>.
  \<^verbatim>\<open>request.session.get("conversation_id")\<close> is \<^verbatim>\<open>None\<close> for a missing key.
\<close>

definition process_feedback_try ::
  "(pyval \<Rightarrow> int \<Rightarrow> pyval outcome) \<Rightarrow> gateway_state \<Rightarrow> int \<Rightarrow> gateway_state \<times> pyval outcome" where
  "process_feedback_try submit_feedback w feedback =
     (let conversation_id = (case session w ''conversation_id'' of None \<Rightarrow> PNone | Some v \<Rightarrow> v)
      in if \<not> truthy conversation_id
         then (w, Inl (HTTPException 400 (PStr ''No active conversation found'')))
         else
           (let w1 = logging_info
                       [Lit ''Received feedback for conversation ID: '', Val conversation_id] w
            in if feedback \<notin> set [-1, 1]
               then (w1, Inl (HTTPException 400 (PStr ''Invalid feedback value. Must be -1 or 1'')))
               else
                 (let w2 = record_call (SubmitFeedbackCall conversation_id feedback) w1
                  in case submit_feedback conversation_id feedback of
                       Inl e \<Rightarrow> (w2, Inl e)
                     | Inr result \<Rightarrow>
                         (case subscript result ''status'' of
                            Inl e \<Rightarrow> (w2, Inl e)
                          | Inr status \<Rightarrow>
                              if status = PStr ''success''
                              then (w2, Inr (PDict
                                      [(''message'', PStr ''Feedback received and saved successfully'')]))
                              else (case subscript result ''message'' of
                                      Inl e \<Rightarrow> (w2, Inl e)
                                    | Inr message \<Rightarrow> (w2, Inl (HTTPException_500 message)))))))"

text \<open>
  \<^verbatim>\<open>process_feedback\<close>: the \<^verbatim>\<open>try\<close> block under its two handlers, in the order written:
  \<^verbatim>\<open>except HTTPException: raise\<close>, then \<^verbatim>\<open>except Exception as e\<close>.
\<close>

definition process_feedback ::
  "(pyval \<Rightarrow> int \<Rightarrow> pyval outcome) \<Rightarrow> gateway_state \<Rightarrow> int \<Rightarrow> gateway_state \<times> pyval outcome" where
  "process_feedback submit_feedback w feedback =
     (case process_feedback_try submit_feedback w feedback of
        (w', Inl (HTTPException s d)) \<Rightarrow> (w', Inl (HTTPException s d))
      | (w', Inl e) \<Rightarrow>
          (logging_error [Lit ''Error processing feedback: '', ExcStr e] w',
           Inl (HTTPException 500 (PStr ''Error processing your feedback'')))
      | (w', Inr body) \<Rightarrow> (w', Inr body))"

subsection \<open>The two routes, with their dependency\<close>

text \<open>
  Both handlers declare \<^verbatim>\<open>api_key = Depends(get_api_key)\<close>: \<^verbatim>\<open>api_key_header\<close> reads
  the request's header, \<^verbatim>\<open>get_api_key\<close> checks what it delivers, and an exception
  raised there is the response; the handler then does not run.
\<close>

definition ask_route ::
  "(string \<rightharpoonup> string) \<Rightarrow> (string \<Rightarrow> pyval outcome) \<Rightarrow> gateway_state \<Rightarrow> string option \<Rightarrow> string
     \<Rightarrow> gateway_state \<times> pyval outcome" where
  "ask_route env rag w header question =
     (case get_api_key env (api_key_header header) of
        Inl e \<Rightarrow> (w, Inl e)
      | Inr api_key \<Rightarrow> ask_question rag w question)"

definition feedback_route ::
  "(string \<rightharpoonup> string) \<Rightarrow> (pyval \<Rightarrow> int \<Rightarrow> pyval outcome) \<Rightarrow> gateway_state \<Rightarrow> string option \<Rightarrow> int
     \<Rightarrow> gateway_state \<times> pyval outcome" where
  "feedback_route env submit_feedback w header feedback =
     (case get_api_key env (api_key_header header) of
        Inl e \<Rightarrow> (w, Inl e)
      | Inr api_key \<Rightarrow> process_feedback submit_feedback w feedback)"

subsection \<open>Sequences of requests in one session\<close>

text \<open>
  A request carries, besides its header and body, the behaviour of the collaborator at
  the moment it is served, so that a collaborator may answer differently each time.
\<close>

datatype request =
    Ask "string option" string "string \<Rightarrow> pyval outcome"
  | Feedback "string option" int "pyval \<Rightarrow> int \<Rightarrow> pyval outcome"

fun serve :: "(string \<rightharpoonup> string) \<Rightarrow> gateway_state \<Rightarrow> request \<Rightarrow> gateway_state \<times> pyval outcome" where
  "serve env w (Ask header question rag) = ask_route env rag w header question"
| "serve env w (Feedback header feedback submit_feedback) =
     feedback_route env submit_feedback w header feedback"

fun serve_all :: "(string \<rightharpoonup> string) \<Rightarrow> gateway_state \<Rightarrow> request list \<Rightarrow> gateway_state" where
  "serve_all env w [] = w"
| "serve_all env w (r # rs) = serve_all env (fst (serve env w r)) rs"

subsection \<open>Sample collaborators and states\<close>

text \<open>
  Concrete collaborators and sessions, used where a property is evaluated on an example:
  a \<^verbatim>\<open>rag\<close> that answers and one that raises; a \<^verbatim>\<open>submit_feedback\<close> that reports
  success, one that reports an error, one that raises a database error and one that
  raises an \<^verbatim>\<open>HTTPException\<close> of its own; an environment without \<^verbatim>\<open>API_KEY\<close>; a session
  that holds the id \<^verbatim>\<open>"c1"\<close> and one that holds the empty string. Further a \<^verbatim>\<open>rag\<close>
  whose result has the empty string as id, one whose result has an id and nothing else,
  and a \<^verbatim>\<open>submit_feedback\<close> that reports an error with the message \<^verbatim>\<open>None\<close>.
\<close>

definition sample_answer :: pyval where
  "sample_answer = PDict
     [(''id'', PStr ''c1''),
      (''answer'', PStr ''X is a letter''),
      (''relevance'', PStr ''RELEVANT''),
      (''response_time'', PFloat 3 (-1)),
      (''total_tokens'', PInt 120),
      (''openai_cost'', PFloat 5 (-12))]"

definition rag_answers :: "string \<Rightarrow> pyval outcome" where
  "rag_answers question = Inr sample_answer"

definition rag_raises :: "string \<Rightarrow> pyval outcome" where
  "rag_raises question = Inl (OtherError ''ConnectionError'' ''search backend unreachable'')"

definition submit_succeeds :: "pyval \<Rightarrow> int \<Rightarrow> pyval outcome" where
  "submit_succeeds conversation_id score =
     Inr (PDict [(''status'', PStr ''success''), (''message'', PStr ''Feedback saved'')])"

definition submit_reports_error :: "pyval \<Rightarrow> int \<Rightarrow> pyval outcome" where
  "submit_reports_error conversation_id score =
     Inr (PDict [(''status'', PStr ''error''), (''message'', PStr ''X'')])"

definition submit_raises :: "pyval \<Rightarrow> int \<Rightarrow> pyval outcome" where
  "submit_raises conversation_id score =
     Inl (OtherError ''OperationalError'' ''database is locked'')"

definition submit_raises_http :: "pyval \<Rightarrow> int \<Rightarrow> pyval outcome" where
  "submit_raises_http conversation_id score =
     Inl (HTTPException 503 (PStr ''database unavailable''))"

definition blank_id_answer :: pyval where
  "blank_id_answer = PDict
     [(''id'', PStr ''''),
      (''answer'', PStr ''X is a letter''),
      (''relevance'', PStr ''RELEVANT''),
      (''response_time'', PFloat 3 (-1)),
      (''total_tokens'', PInt 120),
      (''openai_cost'', PFloat 5 (-12))]"

definition rag_blank_id :: "string \<Rightarrow> pyval outcome" where
  "rag_blank_id question = Inr blank_id_answer"

definition rag_id_only :: "string \<Rightarrow> pyval outcome" where
  "rag_id_only question = Inr (PDict [(''id'', PStr ''c9'')])"

definition submit_reports_none :: "pyval \<Rightarrow> int \<Rightarrow> pyval outcome" where
  "submit_reports_none conversation_id score =
     Inr (PDict [(''status'', PStr ''error''), (''message'', PNone)])"

definition no_env :: "string \<rightharpoonup> string" where
  "no_env = Map.empty"

definition session_c1 :: gateway_state where
  "session_c1 = \<lparr>session = [''conversation_id'' \<mapsto> PStr ''c1''], logged = [], calls = []\<rparr>"

definition session_blank_id :: gateway_state where
  "session_blank_id = \<lparr>session = [''conversation_id'' \<mapsto> PStr ''''], logged = [], calls = []\<rparr>"

section \<open>Properties\<close>

subsection \<open>Auxiliary facts about the handlers\<close>

lemmas gw_defs = logging_info_def logging_error_def record_call_def

lemma get_api_key_accept:
  "header = None \<or> header = Some (getenv env ''API_KEY'' ''your-api-key'') \<Longrightarrow>
     get_api_key env header = Inr header"
  by (auto simp: get_api_key_def)

lemma get_api_key_reject:
  "header = Some k \<Longrightarrow> k \<noteq> getenv env ''API_KEY'' ''your-api-key'' \<Longrightarrow>
     get_api_key env header = Inl (HTTPException 401 (PStr ''Invalid API Key''))"
  by (simp add: get_api_key_def)

lemma is_HTTPException_500 [simp]: "is_HTTPException (HTTPException_500 d)"
  by (simp add: HTTPException_500_def)

lemma api_key_header_Some: "k \<noteq> [] \<Longrightarrow> api_key_header (Some k) = Some k"
  by (simp add: api_key_header_def)

lemma api_key_header_None: "api_key_header None = None" "api_key_header (Some []) = None"
  by (simp_all add: api_key_header_def)

lemma get_api_key_Inr: "get_api_key env header = Inr k \<Longrightarrow> k = header"
  by (simp add: get_api_key_def split: if_splits)

lemma ask_response_Inr:
  "ask_response answer_data = Inr body \<longleftrightarrow>
     (\<exists>v_id v_answer v_relevance v_response_time v_total_tokens v_openai_cost.
        subscript answer_data ''id'' = Inr v_id \<and>
        subscript answer_data ''answer'' = Inr v_answer \<and>
        subscript answer_data ''relevance'' = Inr v_relevance \<and>
        subscript answer_data ''response_time'' = Inr v_response_time \<and>
        subscript answer_data ''total_tokens'' = Inr v_total_tokens \<and>
        subscript answer_data ''openai_cost'' = Inr v_openai_cost \<and>
        body = PDict
          [(''conversation_id'', v_id),
           (''answer'', v_answer),
           (''relevance'', v_relevance),
           (''response_time'', v_response_time),
           (''total_tokens'', v_total_tokens),
           (''estimated_cost'', v_openai_cost)])"
  by (auto simp: ask_response_def and_then_def split: sum.splits)

lemma ask_question_raise:
  "rag question = Inl e \<Longrightarrow>
     ask_question rag w question =
       (logging_error [Lit ''Error processing question: '', ExcStr e]
          (record_call (RagCall question)
             (logging_info [Lit ''Received question: '', Val (PStr question)] w)),
        Inl (HTTPException 500 (PStr ''Error processing your question'')))"
  by (simp add: ask_question_def ask_question_try_def)

lemma ask_question_outcome:
  "snd (ask_question rag w question) =
     (case snd (ask_question_try rag w question) of
        Inl e \<Rightarrow> Inl (HTTPException 500 (PStr ''Error processing your question''))
      | Inr body \<Rightarrow> Inr body)"
  by (cases "ask_question_try rag w question")
     (simp add: ask_question_def split: sum.splits)

lemma ask_question_try_outcome:
  "snd (ask_question_try rag w question) = and_then (rag question) ask_response"
  by (simp add: ask_question_try_def Let_def and_then_def ask_response_def split: sum.splits)

lemma ask_question_session:
  "session (fst (ask_question rag w question)) =
     (case and_then (rag question) (\<lambda>answer_data. subscript answer_data ''id'') of
        Inl e \<Rightarrow> session w
      | Inr v_id \<Rightarrow> (session w)(''conversation_id'' \<mapsto> v_id))"
  by (simp add: ask_question_def ask_question_try_def gw_defs Let_def and_then_def
      split: sum.splits)

lemma process_feedback_except:
  "process_feedback submit_feedback w feedback =
     (case process_feedback_try submit_feedback w feedback of
        (w', Inl e) \<Rightarrow>
           if is_HTTPException e then (w', Inl e)
           else (logging_error [Lit ''Error processing feedback: '', ExcStr e] w',
                 Inl (HTTPException 500 (PStr ''Error processing your feedback'')))
      | (w', Inr body) \<Rightarrow> (w', Inr body))"
proof (cases "process_feedback_try submit_feedback w feedback")
  case (Pair w' r)
  show ?thesis
  proof (cases r)
    case (Inl e)
    with Pair show ?thesis by (cases e) (simp_all add: process_feedback_def)
  next
    case (Inr b)
    with Pair show ?thesis by (simp add: process_feedback_def)
  qed
qed

lemma process_feedback_try_session:
  "session (fst (process_feedback_try submit_feedback w feedback)) = session w"
  by (simp add: process_feedback_try_def gw_defs Let_def split: sum.splits)

lemma process_feedback_session:
  "session (fst (process_feedback submit_feedback w feedback)) = session w"
proof (cases "process_feedback_try submit_feedback w feedback")
  case (Pair w' r)
  with process_feedback_try_session [of submit_feedback w feedback]
  have "session w' = session w" by simp
  with Pair show ?thesis
    by (cases r) (simp_all add: process_feedback_except logging_error_def)
qed

lemma try_no_conversation:
  "\<not> truthy (case session w ''conversation_id'' of None \<Rightarrow> PNone | Some v \<Rightarrow> v) \<Longrightarrow>
     process_feedback_try submit_feedback w feedback =
       (w, Inl (HTTPException 400 (PStr ''No active conversation found'')))"
  by (simp add: process_feedback_try_def)

lemma try_invalid_value:
  "session w ''conversation_id'' = Some cid \<Longrightarrow> truthy cid \<Longrightarrow>
   feedback \<noteq> -1 \<Longrightarrow> feedback \<noteq> 1 \<Longrightarrow>
     process_feedback_try submit_feedback w feedback =
       (logging_info [Lit ''Received feedback for conversation ID: '', Val cid] w,
        Inl (HTTPException 400 (PStr ''Invalid feedback value. Must be -1 or 1'')))"
  by (simp add: process_feedback_try_def)

lemma try_submitted:
  "session w ''conversation_id'' = Some cid \<Longrightarrow> truthy cid \<Longrightarrow>
   feedback = -1 \<or> feedback = 1 \<Longrightarrow>
     process_feedback_try submit_feedback w feedback =
       (record_call (SubmitFeedbackCall cid feedback)
          (logging_info [Lit ''Received feedback for conversation ID: '', Val cid] w),
        and_then (submit_feedback cid feedback) (\<lambda>result.
        and_then (subscript result ''status'') (\<lambda>status.
          if status = PStr ''success''
          then Inr (PDict [(''message'', PStr ''Feedback received and saved successfully'')])
          else and_then (subscript result ''message'') (\<lambda>message.
                 Inl (HTTPException_500 message)))))"
  by (auto simp add: process_feedback_try_def Let_def and_then_def split: sum.splits)

lemma process_feedback_no_conversation:
  "\<not> truthy (case session w ''conversation_id'' of None \<Rightarrow> PNone | Some v \<Rightarrow> v) \<Longrightarrow>
     process_feedback submit_feedback w feedback =
       (w, Inl (HTTPException 400 (PStr ''No active conversation found'')))"
  by (simp add: process_feedback_except try_no_conversation)

lemma process_feedback_invalid_value:
  "session w ''conversation_id'' = Some cid \<Longrightarrow> truthy cid \<Longrightarrow>
   feedback \<noteq> -1 \<Longrightarrow> feedback \<noteq> 1 \<Longrightarrow>
     process_feedback submit_feedback w feedback =
       (logging_info [Lit ''Received feedback for conversation ID: '', Val cid] w,
        Inl (HTTPException 400 (PStr ''Invalid feedback value. Must be -1 or 1'')))"
  by (simp add: process_feedback_except try_invalid_value)

lemma process_feedback_calls:
  "calls (fst (process_feedback submit_feedback w feedback)) = calls w \<or>
   (\<exists>cid. session w ''conversation_id'' = Some cid \<and> truthy cid \<and>
      (feedback = -1 \<or> feedback = 1) \<and>
      calls (fst (process_feedback submit_feedback w feedback)) =
        calls w @ [SubmitFeedbackCall cid feedback])"
proof (cases "truthy (case session w ''conversation_id'' of None \<Rightarrow> PNone | Some v \<Rightarrow> v)")
  case False
  then show ?thesis by (simp add: process_feedback_no_conversation)
next
  case True
  then obtain cid where cid: "session w ''conversation_id'' = Some cid" "truthy cid"
    by (cases "session w ''conversation_id''") auto
  show ?thesis
  proof (cases "feedback = -1 \<or> feedback = 1")
    case False
    with cid show ?thesis by (simp add: process_feedback_invalid_value logging_info_def)
  next
    case True
    with cid show ?thesis
      by (simp add: process_feedback_except try_submitted gw_defs split: sum.splits)
  qed
qed

lemma process_feedback_returns:
  "snd (process_feedback submit_feedback w feedback) = Inr body \<Longrightarrow>
     \<exists>cid. session w ''conversation_id'' = Some cid \<and> truthy cid"
proof (cases "truthy (case session w ''conversation_id'' of None \<Rightarrow> PNone | Some v \<Rightarrow> v)")
  case False
  assume "snd (process_feedback submit_feedback w feedback) = Inr body"
  with False show ?thesis by (simp add: process_feedback_no_conversation)
next
  case True
  then show ?thesis by (cases "session w ''conversation_id''") auto
qed

lemma process_feedback_submitted:
  assumes "session w ''conversation_id'' = Some cid" and "truthy cid"
    and "feedback = -1 \<or> feedback = 1"
  shows "snd (process_feedback submit_feedback w feedback) =
     (case and_then (submit_feedback cid feedback) (\<lambda>result.
           and_then (subscript result ''status'') (\<lambda>status.
             if status = PStr ''success''
             then Inr (PDict [(''message'', PStr ''Feedback received and saved successfully'')])
             else and_then (subscript result ''message'') (\<lambda>message.
                    Inl (HTTPException_500 message)))) of
        Inl e \<Rightarrow>
          if is_HTTPException e then Inl e
          else Inl (HTTPException 500 (PStr ''Error processing your feedback''))
      | Inr body \<Rightarrow> Inr body)"
  by (simp add: process_feedback_except try_submitted [OF assms] split: sum.splits)

lemma process_feedback_outcome:
  "snd (process_feedback submit_feedback w feedback) =
     (case snd (process_feedback_try submit_feedback w feedback) of
        Inl e \<Rightarrow>
          if is_HTTPException e then Inl e
          else Inl (HTTPException 500 (PStr ''Error processing your feedback''))
      | Inr body \<Rightarrow> Inr body)"
  by (cases "process_feedback_try submit_feedback w feedback")
     (simp add: process_feedback_except split: sum.splits)

lemma ask_question_calls:
  "calls (fst (ask_question rag w question)) = calls w @ [RagCall question]"
  by (simp add: ask_question_def ask_question_try_def gw_defs Let_def split: sum.splits)

lemma process_feedback_submitted_calls:
  assumes "session w ''conversation_id'' = Some cid" and "truthy cid"
    and "feedback = -1 \<or> feedback = 1"
  shows "calls (fst (process_feedback submit_feedback w feedback)) =
     calls w @ [SubmitFeedbackCall cid feedback]"
  by (simp add: process_feedback_except try_submitted [OF assms] gw_defs split: sum.splits)

lemma serve_session:
  assumes "session (fst (serve env w r)) ''conversation_id'' = Some cid"
  shows "session w ''conversation_id'' = Some cid \<or>
     (\<exists>header question rag answer_data.
        r = Ask header question rag \<and> get_api_key env (api_key_header header) = Inr (api_key_header header) \<and>
        rag question = Inr answer_data \<and> subscript answer_data ''id'' = Inr cid)"
proof (cases r)
  case (Ask header question rag)
  show ?thesis
  proof (cases "get_api_key env (api_key_header header)")
    case (Inl e)
    with Ask assms show ?thesis by (simp add: ask_route_def)
  next
    case (Inr k)
    then have k: "get_api_key env (api_key_header header) = Inr (api_key_header header)"
      by (simp add: get_api_key_Inr)
    with Ask assms have s: "session (fst (ask_question rag w question)) ''conversation_id'' = Some cid"
      by (simp add: ask_route_def)
    show ?thesis
    proof (cases "rag question")
      case (Inl e)
      with s show ?thesis by (simp add: ask_question_session and_then_def)
    next
      case d: (Inr answer_data)
      show ?thesis
      proof (cases "subscript answer_data ''id''")
        case (Inl e)
        with s d show ?thesis by (simp add: ask_question_session and_then_def)
      next
        case (Inr v_id)
        with s d have "v_id = cid" by (simp add: ask_question_session and_then_def)
        with Ask k d Inr show ?thesis by simp
      qed
    qed
  qed
next
  case (Feedback header feedback submit_feedback)
  with assms show ?thesis
    by (cases "get_api_key env (api_key_header header)")
       (simp_all add: feedback_route_def process_feedback_session)
qed

lemma serve_all_session:
  "session (serve_all env w rs) ''conversation_id'' = Some cid \<Longrightarrow>
     session w ''conversation_id'' = Some cid \<or>
     (\<exists>r \<in> set rs. \<exists>header question rag answer_data.
        r = Ask header question rag \<and> get_api_key env (api_key_header header) = Inr (api_key_header header) \<and>
        rag question = Inr answer_data \<and> subscript answer_data ''id'' = Inr cid)"
proof (induction rs arbitrary: w)
  case Nil
  then show ?case by simp
next
  case (Cons r rs)
  from Cons.prems
  have "session (serve_all env (fst (serve env w r)) rs) ''conversation_id'' = Some cid"
    by simp
  from Cons.IH [OF this] show ?case
  proof
    assume "session (fst (serve env w r)) ''conversation_id'' = Some cid"
    from serve_session [OF this] show ?thesis by auto
  next
    assume "\<exists>r \<in> set rs. \<exists>header question rag answer_data.
        r = Ask header question rag \<and> get_api_key env (api_key_header header) = Inr (api_key_header header) \<and>
        rag question = Inr answer_data \<and> subscript answer_data ''id'' = Inr cid"
    then show ?thesis by auto
  qed
qed

subsection \<open>Authentication\<close>

text \<open>
  Claim C1, amended. \<^verbatim>\<open>get_api_key\<close> raises 401 \<^verbatim>\<open>Invalid API Key\<close> exactly when it is
  given a key that differs from the expected one (the environment's \<^verbatim>\<open>API_KEY\<close>, or the
  literal \<^verbatim>\<open>your-api-key\<close> when it is unset), and returns what it is given otherwise.
  On both routes a request whose \<^verbatim>\<open>X-API-Key\<close> header is present, not empty and different
  from the expected key is answered with that 401, and nothing of the state changes. A
  request without the header, with an empty header, or with the expected key passes, and
  the route does what its handler does. In particular a request without the header
  always passes.
\<close>

theorem api_key_gate:
  "(api_key = Some k \<and> k \<noteq> (case env ''API_KEY'' of None \<Rightarrow> ''your-api-key'' | Some v \<Rightarrow> v) \<longrightarrow>
      get_api_key env api_key = Inl (HTTPException 401 (PStr ''Invalid API Key'')))
   \<and> (api_key = None \<or>
       api_key = Some (case env ''API_KEY'' of None \<Rightarrow> ''your-api-key'' | Some v \<Rightarrow> v) \<longrightarrow>
      get_api_key env api_key = Inr api_key)
   \<and> (header = Some h \<and> h \<noteq> [] \<and>
       h \<noteq> (case env ''API_KEY'' of None \<Rightarrow> ''your-api-key'' | Some v \<Rightarrow> v) \<longrightarrow>
      ask_route env rag w header question =
        (w, Inl (HTTPException 401 (PStr ''Invalid API Key''))) \<and>
      feedback_route env submit_feedback w header feedback =
        (w, Inl (HTTPException 401 (PStr ''Invalid API Key''))))
   \<and> (header = None \<or> header = Some [] \<or>
       header = Some (case env ''API_KEY'' of None \<Rightarrow> ''your-api-key'' | Some v \<Rightarrow> v) \<longrightarrow>
      ask_route env rag w header question = ask_question rag w question \<and>
      feedback_route env submit_feedback w header feedback =
        process_feedback submit_feedback w feedback)
   \<and> get_api_key env None = Inr None"
proof (intro conjI impI)
  assume "api_key = Some k \<and> k \<noteq> (case env ''API_KEY'' of None \<Rightarrow> ''your-api-key'' | Some v \<Rightarrow> v)"
  then show "get_api_key env api_key = Inl (HTTPException 401 (PStr ''Invalid API Key''))"
    by (simp add: get_api_key_reject getenv_def)
next
  assume "api_key = None \<or>
       api_key = Some (case env ''API_KEY'' of None \<Rightarrow> ''your-api-key'' | Some v \<Rightarrow> v)"
  then show "get_api_key env api_key = Inr api_key"
    by (simp add: get_api_key_accept getenv_def)
next
  assume a: "header = Some h \<and> h \<noteq> [] \<and>
       h \<noteq> (case env ''API_KEY'' of None \<Rightarrow> ''your-api-key'' | Some v \<Rightarrow> v)"
  then have "api_key_header header = Some h"
    by (simp add: api_key_header_Some)
  with a have r: "get_api_key env (api_key_header header) =
      Inl (HTTPException 401 (PStr ''Invalid API Key''))"
    by (simp add: get_api_key_reject getenv_def)
  show "ask_route env rag w header question =
          (w, Inl (HTTPException 401 (PStr ''Invalid API Key'')))"
    by (simp add: ask_route_def r)
  show "feedback_route env submit_feedback w header feedback =
          (w, Inl (HTTPException 401 (PStr ''Invalid API Key'')))"
    by (simp add: feedback_route_def r)
next
  assume a: "header = None \<or> header = Some [] \<or>
       header = Some (case env ''API_KEY'' of None \<Rightarrow> ''your-api-key'' | Some v \<Rightarrow> v)"
  define x where "x = (case env ''API_KEY'' of None \<Rightarrow> ''your-api-key'' | Some v \<Rightarrow> v)"
  have gx: "getenv env ''API_KEY'' ''your-api-key'' = x"
    by (simp add: getenv_def x_def)
  from a have "header = None \<or> header = Some [] \<or> header = Some x"
    by (simp add: x_def)
  then have "api_key_header header = None \<or> api_key_header header = Some x"
    by (cases "x = []") (auto simp add: api_key_header_def)
  then have "api_key_header header = None \<or>
      api_key_header header = Some (getenv env ''API_KEY'' ''your-api-key'')"
    by (simp add: gx)
  then have r: "get_api_key env (api_key_header header) = Inr (api_key_header header)"
    by (rule get_api_key_accept)
  show "ask_route env rag w header question = ask_question rag w question"
    by (simp add: ask_route_def r)
  show "feedback_route env submit_feedback w header feedback =
          process_feedback submit_feedback w feedback"
    by (simp add: feedback_route_def r)
next
  show "get_api_key env None = Inr None"
    by (simp add: get_api_key_def)
qed

theorem api_key_gate_witness:
  "ask_route no_env rag_answers empty_state (Some ''wrong'') ''What is X?'' =
        (empty_state, Inl (HTTPException 401 (PStr ''Invalid API Key'')))
   \<and> feedback_route no_env submit_succeeds session_c1 (Some ''wrong'') 1 =
        (session_c1, Inl (HTTPException 401 (PStr ''Invalid API Key'')))
   \<and> get_api_key no_env (Some ''wrong'') = Inl (HTTPException 401 (PStr ''Invalid API Key''))
   \<and> get_api_key no_env (Some ''your-api-key'') = Inr (Some ''your-api-key'')
   \<and> ask_route no_env rag_answers empty_state (Some ''your-api-key'') ''What is X?'' =
        ask_question rag_answers empty_state ''What is X?''
   \<and> feedback_route no_env submit_succeeds session_c1 None 1 =
        process_feedback submit_succeeds session_c1 1"
proof -
  have h1: "Some ''wrong'' = Some ''wrong'' \<and>
      ''wrong'' \<noteq> (case no_env ''API_KEY'' of None \<Rightarrow> ''your-api-key'' | Some v \<Rightarrow> v)"
    by (simp add: no_env_def)
  have h2: "Some ''your-api-key'' = None \<or> Some ''your-api-key'' =
      Some (case no_env ''API_KEY'' of None \<Rightarrow> ''your-api-key'' | Some v \<Rightarrow> v)"
    by (simp add: no_env_def)
  have h3: "Some ''wrong'' = Some ''wrong'' \<and> ''wrong'' \<noteq> [] \<and>
      ''wrong'' \<noteq> (case no_env ''API_KEY'' of None \<Rightarrow> ''your-api-key'' | Some v \<Rightarrow> v)"
    by (simp add: no_env_def)
  have h4: "Some ''your-api-key'' = None \<or> Some ''your-api-key'' = Some [] \<or>
      Some ''your-api-key'' =
        Some (case no_env ''API_KEY'' of None \<Rightarrow> ''your-api-key'' | Some v \<Rightarrow> v)"
    by (simp add: no_env_def)
  have h5: "(None :: string option) = None \<or> None = Some [] \<or>
      None = Some (case no_env ''API_KEY'' of None \<Rightarrow> ''your-api-key'' | Some v \<Rightarrow> v)"
    by simp
  from api_key_gate [where env = no_env and api_key = "Some ''wrong''" and k = "''wrong''",
      THEN conjunct1, THEN mp, OF h1]
  have r1: "get_api_key no_env (Some ''wrong'') =
      Inl (HTTPException 401 (PStr ''Invalid API Key''))" .
  from api_key_gate [where env = no_env and api_key = "Some ''your-api-key''",
      THEN conjunct2, THEN conjunct1, THEN mp, OF h2]
  have r2: "get_api_key no_env (Some ''your-api-key'') = Inr (Some ''your-api-key'')" .
  from api_key_gate [where env = no_env and header = "Some ''wrong''" and h = "''wrong''"
      and rag = rag_answers and w = empty_state and question = "''What is X?''",
      THEN conjunct2, THEN conjunct2, THEN conjunct1, THEN mp, OF h3, THEN conjunct1]
  have r3: "ask_route no_env rag_answers empty_state (Some ''wrong'') ''What is X?'' =
        (empty_state, Inl (HTTPException 401 (PStr ''Invalid API Key'')))" .
  from api_key_gate [where env = no_env and header = "Some ''wrong''" and h = "''wrong''"
      and submit_feedback = submit_succeeds and w = session_c1 and feedback = 1,
      THEN conjunct2, THEN conjunct2, THEN conjunct1, THEN mp, OF h3, THEN conjunct2]
  have r4: "feedback_route no_env submit_succeeds session_c1 (Some ''wrong'') 1 =
        (session_c1, Inl (HTTPException 401 (PStr ''Invalid API Key'')))" .
  from api_key_gate [where env = no_env and header = "Some ''your-api-key''"
      and rag = rag_answers and w = empty_state and question = "''What is X?''",
      THEN conjunct2, THEN conjunct2, THEN conjunct2, THEN conjunct1, THEN mp, OF h4,
      THEN conjunct1]
  have r5: "ask_route no_env rag_answers empty_state (Some ''your-api-key'') ''What is X?'' =
        ask_question rag_answers empty_state ''What is X?''" .
  from api_key_gate [where env = no_env and header = None
      and submit_feedback = submit_succeeds and w = session_c1 and feedback = 1,
      THEN conjunct2, THEN conjunct2, THEN conjunct2, THEN conjunct1, THEN mp, OF h5,
      THEN conjunct2]
  have r6: "feedback_route no_env submit_succeeds session_c1 None 1 =
        process_feedback submit_succeeds session_c1 1" .
  from r3 r4 r1 r2 r5 r6 show ?thesis by (intro conjI)
qed

text \<open>
  Without the amendment the statement fails: a header that is present and empty differs
  from the expected key \<^verbatim>\<open>your-api-key\<close>, and \<^verbatim>\<open>api_key_header\<close> delivers it as
  \<^verbatim>\<open>None\<close>, so both handlers run and return.
\<close>

theorem empty_api_key_header_counterexample:
  "getenv no_env ''API_KEY'' ''your-api-key'' = ''your-api-key''
   \<and> snd (ask_route no_env rag_answers empty_state (Some '''') ''What is X?'') = Inr (PDict
        [(''conversation_id'', PStr ''c1''),
         (''answer'', PStr ''X is a letter''),
         (''relevance'', PStr ''RELEVANT''),
         (''response_time'', PFloat 3 (-1)),
         (''total_tokens'', PInt 120),
         (''estimated_cost'', PFloat 5 (-12))])
   \<and> snd (feedback_route no_env submit_succeeds session_c1 (Some '''') 1) =
        Inr (PDict [(''message'', PStr ''Feedback received and saved successfully'')])"
proof -
  have g: "get_api_key no_env (api_key_header (Some '''')) = Inr None"
    by (simp add: api_key_header_def get_api_key_def)
  have a: "snd (ask_question rag_answers empty_state ''What is X?'') = Inr (PDict
        [(''conversation_id'', PStr ''c1''),
         (''answer'', PStr ''X is a letter''),
         (''relevance'', PStr ''RELEVANT''),
         (''response_time'', PFloat 3 (-1)),
         (''total_tokens'', PInt 120),
         (''estimated_cost'', PFloat 5 (-12))])"
    by (simp add: ask_question_outcome ask_question_try_outcome and_then_def
        ask_response_def rag_answers_def sample_answer_def)
  have s: "session session_c1 ''conversation_id'' = Some (PStr ''c1'')"
    by (simp add: session_c1_def)
  have t: "truthy (PStr ''c1'')" by simp
  have f: "(1::int) = -1 \<or> (1::int) = 1" by simp
  have b: "snd (process_feedback submit_succeeds session_c1 1) =
        Inr (PDict [(''message'', PStr ''Feedback received and saved successfully'')])"
    unfolding process_feedback_submitted [where submit_feedback = submit_succeeds, OF s t f]
    by (simp add: submit_succeeds_def and_then_def)
  have e: "getenv no_env ''API_KEY'' ''your-api-key'' = ''your-api-key''"
    by (simp add: getenv_def no_env_def)
  from e a b show ?thesis
    by (simp add: ask_route_def feedback_route_def g)
qed

subsection \<open>The response of \<^verbatim>\<open>/ask\<close>\<close>

text \<open>
  Claim C3. Whenever \<^verbatim>\<open>ask_question\<close> returns (a 200 response), \<^verbatim>\<open>rag\<close> has returned
  a result, and the body is exactly the dictionary with the keys \<^verbatim>\<open>conversation_id\<close>,
  \<^verbatim>\<open>answer\<close>, \<^verbatim>\<open>relevance\<close>, \<^verbatim>\<open>response_time\<close>, \<^verbatim>\<open>total_tokens\<close> and
  \<^verbatim>\<open>estimated_cost\<close>, in this order, holding the result's \<^verbatim>\<open>id\<close>, \<^verbatim>\<open>answer\<close>,
  \<^verbatim>\<open>relevance\<close>, \<^verbatim>\<open>response_time\<close>, \<^verbatim>\<open>total_tokens\<close> and \<^verbatim>\<open>openai_cost\<close>
  unchanged. Conversely, whenever \<^verbatim>\<open>rag\<close> returns a result that has these six fields,
  \<^verbatim>\<open>ask_question\<close> returns that body.
\<close>

theorem ask_success_body:
  "(snd (ask_question rag w question) = Inr body \<longrightarrow>
      (\<exists>answer_data v_id v_answer v_relevance v_response_time v_total_tokens v_openai_cost.
         rag question = Inr answer_data \<and>
         subscript answer_data ''id'' = Inr v_id \<and>
         subscript answer_data ''answer'' = Inr v_answer \<and>
         subscript answer_data ''relevance'' = Inr v_relevance \<and>
         subscript answer_data ''response_time'' = Inr v_response_time \<and>
         subscript answer_data ''total_tokens'' = Inr v_total_tokens \<and>
         subscript answer_data ''openai_cost'' = Inr v_openai_cost \<and>
         body = PDict
           [(''conversation_id'', v_id),
            (''answer'', v_answer),
            (''relevance'', v_relevance),
            (''response_time'', v_response_time),
            (''total_tokens'', v_total_tokens),
            (''estimated_cost'', v_openai_cost)]))
   \<and> (rag question = Inr result \<and>
       subscript result ''id'' = Inr r_id \<and>
       subscript result ''answer'' = Inr r_answer \<and>
       subscript result ''relevance'' = Inr r_relevance \<and>
       subscript result ''response_time'' = Inr r_response_time \<and>
       subscript result ''total_tokens'' = Inr r_total_tokens \<and>
       subscript result ''openai_cost'' = Inr r_openai_cost \<longrightarrow>
      snd (ask_question rag w question) = Inr (PDict
           [(''conversation_id'', r_id),
            (''answer'', r_answer),
            (''relevance'', r_relevance),
            (''response_time'', r_response_time),
            (''total_tokens'', r_total_tokens),
            (''estimated_cost'', r_openai_cost)]))"
proof (intro conjI impI)
  assume "snd (ask_question rag w question) = Inr body"
  then have "and_then (rag question) ask_response = Inr body"
    by (simp add: ask_question_outcome ask_question_try_outcome split: sum.splits)
  then obtain answer_data where
    "rag question = Inr answer_data" "ask_response answer_data = Inr body"
    by (cases "rag question") (simp_all add: and_then_def)
  then show "\<exists>answer_data v_id v_answer v_relevance v_response_time v_total_tokens v_openai_cost.
         rag question = Inr answer_data \<and>
         subscript answer_data ''id'' = Inr v_id \<and>
         subscript answer_data ''answer'' = Inr v_answer \<and>
         subscript answer_data ''relevance'' = Inr v_relevance \<and>
         subscript answer_data ''response_time'' = Inr v_response_time \<and>
         subscript answer_data ''total_tokens'' = Inr v_total_tokens \<and>
         subscript answer_data ''openai_cost'' = Inr v_openai_cost \<and>
         body = PDict
           [(''conversation_id'', v_id),
            (''answer'', v_answer),
            (''relevance'', v_relevance),
            (''response_time'', v_response_time),
            (''total_tokens'', v_total_tokens),
            (''estimated_cost'', v_openai_cost)]"
    unfolding ask_response_Inr by blast
next
  assume a: "rag question = Inr result \<and>
       subscript result ''id'' = Inr r_id \<and>
       subscript result ''answer'' = Inr r_answer \<and>
       subscript result ''relevance'' = Inr r_relevance \<and>
       subscript result ''response_time'' = Inr r_response_time \<and>
       subscript result ''total_tokens'' = Inr r_total_tokens \<and>
       subscript result ''openai_cost'' = Inr r_openai_cost"
  then have "ask_response result = Inr (PDict
           [(''conversation_id'', r_id),
            (''answer'', r_answer),
            (''relevance'', r_relevance),
            (''response_time'', r_response_time),
            (''total_tokens'', r_total_tokens),
            (''estimated_cost'', r_openai_cost)])"
    by (simp add: ask_response_def and_then_def)
  with a show "snd (ask_question rag w question) = Inr (PDict
           [(''conversation_id'', r_id),
            (''answer'', r_answer),
            (''relevance'', r_relevance),
            (''response_time'', r_response_time),
            (''total_tokens'', r_total_tokens),
            (''estimated_cost'', r_openai_cost)])"
    by (simp add: ask_question_outcome ask_question_try_outcome and_then_def)
qed

theorem ask_success_body_witness:
  "rag_answers ''What is X?'' = Inr sample_answer
   \<and> subscript sample_answer ''openai_cost'' = Inr (PFloat 5 (-12))
   \<and> snd (ask_question rag_answers empty_state ''What is X?'') = Inr (PDict
        [(''conversation_id'', PStr ''c1''),
         (''answer'', PStr ''X is a letter''),
         (''relevance'', PStr ''RELEVANT''),
         (''response_time'', PFloat 3 (-1)),
         (''total_tokens'', PInt 120),
         (''estimated_cost'', PFloat 5 (-12))])"
proof -
  have h: "rag_answers ''What is X?'' = Inr sample_answer \<and>
       subscript sample_answer ''id'' = Inr (PStr ''c1'') \<and>
       subscript sample_answer ''answer'' = Inr (PStr ''X is a letter'') \<and>
       subscript sample_answer ''relevance'' = Inr (PStr ''RELEVANT'') \<and>
       subscript sample_answer ''response_time'' = Inr (PFloat 3 (-1)) \<and>
       subscript sample_answer ''total_tokens'' = Inr (PInt 120) \<and>
       subscript sample_answer ''openai_cost'' = Inr (PFloat 5 (-12))"
    by (simp add: rag_answers_def sample_answer_def)
  have "snd (ask_question rag_answers empty_state ''What is X?'') = Inr (PDict
        [(''conversation_id'', PStr ''c1''),
         (''answer'', PStr ''X is a letter''),
         (''relevance'', PStr ''RELEVANT''),
         (''response_time'', PFloat 3 (-1)),
         (''total_tokens'', PInt 120),
         (''estimated_cost'', PFloat 5 (-12))])"
    by (rule ask_success_body [where rag = rag_answers and w = empty_state
          and question = "''What is X?''" and result = sample_answer
          and r_id = "PStr ''c1''" and r_answer = "PStr ''X is a letter''"
          and r_relevance = "PStr ''RELEVANT''" and r_response_time = "PFloat 3 (-1)"
          and r_total_tokens = "PInt 120" and r_openai_cost = "PFloat 5 (-12)",
          THEN conjunct2, THEN mp, OF h])
  with h show ?thesis by blast
qed

text \<open>
  Claim C7. When \<^verbatim>\<open>rag\<close> raises, or any later step of the \<^verbatim>\<open>try\<close> block does,
  \<^verbatim>\<open>ask_question\<close> raises the \<^verbatim>\<open>HTTPException\<close> with status 500 and the fixed detail
  \<^verbatim>\<open>Error processing your question\<close>. The exception's own text goes into one
  \<^verbatim>\<open>ERROR\<close> record of the log and nowhere else: whatever \<^verbatim>\<open>ask_question\<close> raises is
  this one fixed exception.
\<close>

theorem ask_failure_is_generic:
  "(rag question = Inl e \<longrightarrow>
      ask_question rag w question =
        (logging_error [Lit ''Error processing question: '', ExcStr e]
           (record_call (RagCall question)
              (logging_info [Lit ''Received question: '', Val (PStr question)] w)),
         Inl (HTTPException 500 (PStr ''Error processing your question''))))
   \<and> (snd (ask_question_try rag w question) = Inl e \<longrightarrow>
      snd (ask_question rag w question) =
        Inl (HTTPException 500 (PStr ''Error processing your question'')) \<and>
      logged (fst (ask_question rag w question)) =
        logged (fst (ask_question_try rag w question)) @
          [ERROR [Lit ''Error processing question: '', ExcStr e]])
   \<and> (snd (ask_question rag w question) = Inl e' \<longrightarrow>
      e' = HTTPException 500 (PStr ''Error processing your question''))"
proof (intro conjI impI)
  assume "rag question = Inl e"
  then show "ask_question rag w question =
        (logging_error [Lit ''Error processing question: '', ExcStr e]
           (record_call (RagCall question)
              (logging_info [Lit ''Received question: '', Val (PStr question)] w)),
         Inl (HTTPException 500 (PStr ''Error processing your question'')))"
    by (rule ask_question_raise)
next
  assume a: "snd (ask_question_try rag w question) = Inl e"
  then show "snd (ask_question rag w question) =
        Inl (HTTPException 500 (PStr ''Error processing your question''))"
    by (simp add: ask_question_outcome)
  from a show "logged (fst (ask_question rag w question)) =
        logged (fst (ask_question_try rag w question)) @
          [ERROR [Lit ''Error processing question: '', ExcStr e]]"
    by (cases "ask_question_try rag w question")
       (simp add: ask_question_def logging_error_def)
next
  assume "snd (ask_question rag w question) = Inl e'"
  then show "e' = HTTPException 500 (PStr ''Error processing your question'')"
    by (simp add: ask_question_outcome split: sum.splits)
qed

theorem ask_failure_is_generic_witness:
  "rag_raises ''What is X?'' = Inl (OtherError ''ConnectionError'' ''search backend unreachable'')
   \<and> snd (ask_question rag_raises empty_state ''What is X?'') =
        Inl (HTTPException 500 (PStr ''Error processing your question''))
   \<and> logged (fst (ask_question rag_raises empty_state ''What is X?'')) =
        [INFO [Lit ''Received question: '', Val (PStr ''What is X?'')],
         ERROR [Lit ''Error processing question: '',
                ExcStr (OtherError ''ConnectionError'' ''search backend unreachable'')]]"
proof -
  have h: "rag_raises ''What is X?'' =
      Inl (OtherError ''ConnectionError'' ''search backend unreachable'')"
    by (simp add: rag_raises_def)
  from ask_failure_is_generic [where rag = rag_raises and question = "''What is X?''"
      and w = empty_state, THEN conjunct1, THEN mp, OF h]
  have "ask_question rag_raises empty_state ''What is X?'' =
        (logging_error [Lit ''Error processing question: '',
             ExcStr (OtherError ''ConnectionError'' ''search backend unreachable'')]
           (record_call (RagCall ''What is X?'')
              (logging_info [Lit ''Received question: '', Val (PStr ''What is X?'')] empty_state)),
         Inl (HTTPException 500 (PStr ''Error processing your question'')))" .
  then have "snd (ask_question rag_raises empty_state ''What is X?'') =
        Inl (HTTPException 500 (PStr ''Error processing your question''))"
    and "logged (fst (ask_question rag_raises empty_state ''What is X?'')) =
        [INFO [Lit ''Received question: '', Val (PStr ''What is X?'')],
         ERROR [Lit ''Error processing question: '',
                ExcStr (OtherError ''ConnectionError'' ''search backend unreachable'')]]"
    by (simp_all add: gw_defs empty_state_def)
  with h show ?thesis by blast
qed

subsection \<open>The session between the two routes\<close>

text \<open>
  Claim C9. \<^verbatim>\<open>ask_question\<close> leaves the session as it was when \<^verbatim>\<open>rag\<close> raises; when
  \<^verbatim>\<open>rag\<close> returns a result with an \<^verbatim>\<open>id\<close>, it stores that id under
  \<^verbatim>\<open>conversation_id\<close>, over any earlier value; and it changes the session in no other
  way. \<^verbatim>\<open>process_feedback\<close> never changes the session, whatever its outcome, so a second
  feedback request finds the session the first one found.
\<close>

theorem session_frame:
  "(rag question = Inl e \<longrightarrow> session (fst (ask_question rag w question)) = session w)
   \<and> (rag question = Inr answer_data \<and> subscript answer_data ''id'' = Inr v_id \<longrightarrow>
      session (fst (ask_question rag w question)) = (session w)(''conversation_id'' \<mapsto> v_id))
   \<and> (session (fst (ask_question rag w question)) \<noteq> session w \<longrightarrow>
      (\<exists>d i. rag question = Inr d \<and> subscript d ''id'' = Inr i \<and>
         session (fst (ask_question rag w question)) = (session w)(''conversation_id'' \<mapsto> i)))
   \<and> session (fst (process_feedback submit_feedback w feedback)) = session w
   \<and> session (fst (process_feedback submit_feedback'
        (fst (process_feedback submit_feedback w feedback)) feedback')) = session w"
proof (intro conjI impI)
  assume "rag question = Inl e"
  then show "session (fst (ask_question rag w question)) = session w"
    by (simp add: ask_question_session and_then_def)
next
  assume "rag question = Inr answer_data \<and> subscript answer_data ''id'' = Inr v_id"
  then show "session (fst (ask_question rag w question)) =
      (session w)(''conversation_id'' \<mapsto> v_id)"
    by (simp add: ask_question_session and_then_def)
next
  assume "session (fst (ask_question rag w question)) \<noteq> session w"
  then show "\<exists>d i. rag question = Inr d \<and> subscript d ''id'' = Inr i \<and>
         session (fst (ask_question rag w question)) = (session w)(''conversation_id'' \<mapsto> i)"
    by (cases "rag question")
       (auto simp add: ask_question_session and_then_def split: sum.splits)
next
  show "session (fst (process_feedback submit_feedback w feedback)) = session w"
    by (rule process_feedback_session)
  show "session (fst (process_feedback submit_feedback'
        (fst (process_feedback submit_feedback w feedback)) feedback')) = session w"
    by (simp add: process_feedback_session)
qed

theorem session_frame_witness:
  "session (fst (ask_question rag_raises session_c1 ''What is X?'')) = session session_c1
   \<and> session (fst (ask_question rag_answers session_blank_id ''What is X?'')) =
        (session session_blank_id)(''conversation_id'' \<mapsto> PStr ''c1'')
   \<and> session (fst (process_feedback submit_succeeds session_c1 1)) = session session_c1"
proof -
  have h1: "rag_raises ''What is X?'' =
      Inl (OtherError ''ConnectionError'' ''search backend unreachable'')"
    by (simp add: rag_raises_def)
  have h2: "rag_answers ''What is X?'' = Inr sample_answer \<and>
      subscript sample_answer ''id'' = Inr (PStr ''c1'')"
    by (simp add: rag_answers_def sample_answer_def)
  from session_frame [where rag = rag_raises and question = "''What is X?''"
      and w = session_c1, THEN conjunct1, THEN mp, OF h1]
  have r1: "session (fst (ask_question rag_raises session_c1 ''What is X?'')) =
      session session_c1" .
  from session_frame [where rag = rag_answers and question = "''What is X?''"
      and w = session_blank_id, THEN conjunct2, THEN conjunct1, THEN mp, OF h2]
  have r2: "session (fst (ask_question rag_answers session_blank_id ''What is X?'')) =
      (session session_blank_id)(''conversation_id'' \<mapsto> PStr ''c1'')" .
  from session_frame [where submit_feedback = submit_succeeds and w = session_c1
      and feedback = 1, THEN conjunct2, THEN conjunct2, THEN conjunct2, THEN conjunct1]
  have r3: "session (fst (process_feedback submit_succeeds session_c1 1)) =
      session session_c1" .
  from r1 r2 r3 show ?thesis by blast
qed

text \<open>
  Claim C4, amended. After \<^verbatim>\<open>ask_question\<close> has returned a body, a session equal to the
  one it left holds under \<^verbatim>\<open>conversation_id\<close> the very value the body carries under
  \<^verbatim>\<open>conversation_id\<close>. \<^verbatim>\<open>process_feedback\<close> on that session calls the persistence
  collaborator either not at all or exactly once with that id and the feedback value.
  When the id is falsy it raises 400 \<^verbatim>\<open>No active conversation found\<close> and leaves the
  state untouched. When the id is truthy and the value is -1 or 1 it does call the
  collaborator, and its outcome is what the collaborator answers to exactly that id and
  value, mapped as the handler maps it: an exception raised, a result without
  \<^verbatim>\<open>status\<close>, the status \<^verbatim>\<open>success\<close>, any other status with or without a
  \<^verbatim>\<open>message\<close>.
\<close>

theorem conversation_id_round_trip:
  assumes "snd (ask_question rag w question) = Inr body"
    and "session w2 = session (fst (ask_question rag w question))"
  shows "\<exists>cid. subscript body ''conversation_id'' = Inr cid
     \<and> session w2 ''conversation_id'' = Some cid
     \<and> (calls (fst (process_feedback submit_feedback w2 feedback)) = calls w2 \<or>
        calls (fst (process_feedback submit_feedback w2 feedback)) =
          calls w2 @ [SubmitFeedbackCall cid feedback])
     \<and> (\<not> truthy cid \<longrightarrow>
        process_feedback submit_feedback w2 feedback =
          (w2, Inl (HTTPException 400 (PStr ''No active conversation found''))))
     \<and> (truthy cid \<and> (feedback = -1 \<or> feedback = 1) \<longrightarrow>
        calls (fst (process_feedback submit_feedback w2 feedback)) =
          calls w2 @ [SubmitFeedbackCall cid feedback] \<and>
        snd (process_feedback submit_feedback w2 feedback) =
          (case submit_feedback cid feedback of
             Inl e \<Rightarrow>
               if is_HTTPException e then Inl e
               else Inl (HTTPException 500 (PStr ''Error processing your feedback''))
           | Inr result \<Rightarrow>
               (case subscript result ''status'' of
                  Inl e \<Rightarrow> Inl (HTTPException 500 (PStr ''Error processing your feedback''))
                | Inr status \<Rightarrow>
                    if status = PStr ''success''
                    then Inr (PDict
                      [(''message'', PStr ''Feedback received and saved successfully'')])
                    else (case subscript result ''message'' of
                            Inl e \<Rightarrow>
                              Inl (HTTPException 500 (PStr ''Error processing your feedback''))
                          | Inr message \<Rightarrow>
                              Inl (HTTPException 500
                                (if message = PNone then PStr ''Internal Server Error''
                                 else message))))))"
proof -
  from assms(1) have "and_then (rag question) ask_response = Inr body"
    by (simp add: ask_question_outcome ask_question_try_outcome split: sum.splits)
  then obtain answer_data where d: "rag question = Inr answer_data"
    and b: "ask_response answer_data = Inr body"
    by (cases "rag question") (simp_all add: and_then_def)
  from b obtain cid where i: "subscript answer_data ''id'' = Inr cid"
    and c: "subscript body ''conversation_id'' = Inr cid"
    unfolding ask_response_Inr by auto
  from d i assms(2) have s: "session w2 ''conversation_id'' = Some cid"
    by (simp add: ask_question_session and_then_def)
  have k: "calls (fst (process_feedback submit_feedback w2 feedback)) = calls w2 \<or>
        calls (fst (process_feedback submit_feedback w2 feedback)) =
          calls w2 @ [SubmitFeedbackCall cid feedback]"
    using process_feedback_calls [of submit_feedback w2 feedback] s by auto
  have n: "\<not> truthy cid \<longrightarrow>
        process_feedback submit_feedback w2 feedback =
          (w2, Inl (HTTPException 400 (PStr ''No active conversation found'')))"
    using s by (simp add: process_feedback_no_conversation)
  have p: "truthy cid \<and> (feedback = -1 \<or> feedback = 1) \<longrightarrow>
        calls (fst (process_feedback submit_feedback w2 feedback)) =
          calls w2 @ [SubmitFeedbackCall cid feedback] \<and>
        snd (process_feedback submit_feedback w2 feedback) =
          (case submit_feedback cid feedback of
             Inl e \<Rightarrow>
               if is_HTTPException e then Inl e
               else Inl (HTTPException 500 (PStr ''Error processing your feedback''))
           | Inr result \<Rightarrow>
               (case subscript result ''status'' of
                  Inl e \<Rightarrow> Inl (HTTPException 500 (PStr ''Error processing your feedback''))
                | Inr status \<Rightarrow>
                    if status = PStr ''success''
                    then Inr (PDict
                      [(''message'', PStr ''Feedback received and saved successfully'')])
                    else (case subscript result ''message'' of
                            Inl e \<Rightarrow>
                              Inl (HTTPException 500 (PStr ''Error processing your feedback''))
                          | Inr message \<Rightarrow>
                              Inl (HTTPException 500
                                (if message = PNone then PStr ''Internal Server Error''
                                 else message)))))"
  proof (intro impI conjI)
    assume t: "truthy cid \<and> (feedback = -1 \<or> feedback = 1)"
    with s show "calls (fst (process_feedback submit_feedback w2 feedback)) =
          calls w2 @ [SubmitFeedbackCall cid feedback]"
      by (simp add: process_feedback_submitted_calls)
    from t have t1: "truthy cid" and t2: "feedback = -1 \<or> feedback = 1" by simp_all
    have sub: "\<And>r k e. subscript r k = Inl e \<Longrightarrow> \<not> is_HTTPException e"
    proof -
      fix r k e
      assume "subscript r k = Inl e"
      then show "\<not> is_HTTPException e"
        by (cases r) (auto split: option.splits)
    qed
    show "snd (process_feedback submit_feedback w2 feedback) =
          (case submit_feedback cid feedback of
             Inl e \<Rightarrow>
               if is_HTTPException e then Inl e
               else Inl (HTTPException 500 (PStr ''Error processing your feedback''))
           | Inr result \<Rightarrow>
               (case subscript result ''status'' of
                  Inl e \<Rightarrow> Inl (HTTPException 500 (PStr ''Error processing your feedback''))
                | Inr status \<Rightarrow>
                    if status = PStr ''success''
                    then Inr (PDict
                      [(''message'', PStr ''Feedback received and saved successfully'')])
                    else (case subscript result ''message'' of
                            Inl e \<Rightarrow>
                              Inl (HTTPException 500 (PStr ''Error processing your feedback''))
                          | Inr message \<Rightarrow>
                              Inl (HTTPException 500
                                (if message = PNone then PStr ''Internal Server Error''
                                 else message)))))"
      unfolding process_feedback_submitted [OF s t1 t2]
      by (auto simp add: and_then_def HTTPException_500_def dest: sub split: sum.splits)
  qed
  from c s k n p show ?thesis by blast
qed

theorem conversation_id_round_trip_witness:
  "subscript (PDict
        [(''conversation_id'', PStr ''c1''),
         (''answer'', PStr ''X is a letter''),
         (''relevance'', PStr ''RELEVANT''),
         (''response_time'', PFloat 3 (-1)),
         (''total_tokens'', PInt 120),
         (''estimated_cost'', PFloat 5 (-12))]) ''conversation_id'' = Inr (PStr ''c1'')
   \<and> session (fst (ask_question rag_answers empty_state ''What is X?'')) ''conversation_id'' =
        Some (PStr ''c1'')
   \<and> calls (fst (process_feedback submit_succeeds
        (fst (ask_question rag_answers empty_state ''What is X?'')) 1)) =
      calls (fst (ask_question rag_answers empty_state ''What is X?'')) @
        [SubmitFeedbackCall (PStr ''c1'') 1]
   \<and> snd (process_feedback submit_raises
        (fst (ask_question rag_answers empty_state ''What is X?'')) 1) =
      Inl (HTTPException 500 (PStr ''Error processing your feedback''))"
proof -
  have a: "snd (ask_question rag_answers empty_state ''What is X?'') = Inr (PDict
        [(''conversation_id'', PStr ''c1''),
         (''answer'', PStr ''X is a letter''),
         (''relevance'', PStr ''RELEVANT''),
         (''response_time'', PFloat 3 (-1)),
         (''total_tokens'', PInt 120),
         (''estimated_cost'', PFloat 5 (-12))])"
    by (simp add: ask_question_outcome ask_question_try_outcome and_then_def
        ask_response_def rag_answers_def sample_answer_def)
  from conversation_id_round_trip [where rag = rag_answers and w = empty_state
      and question = "''What is X?''"
      and ?w2.0 = "fst (ask_question rag_answers empty_state ''What is X?'')"
      and submit_feedback = submit_succeeds and feedback = 1, OF a refl]
  have r1: "subscript (PDict
        [(''conversation_id'', PStr ''c1''),
         (''answer'', PStr ''X is a letter''),
         (''relevance'', PStr ''RELEVANT''),
         (''response_time'', PFloat 3 (-1)),
         (''total_tokens'', PInt 120),
         (''estimated_cost'', PFloat 5 (-12))]) ''conversation_id'' = Inr (PStr ''c1'')
   \<and> session (fst (ask_question rag_answers empty_state ''What is X?'')) ''conversation_id'' =
        Some (PStr ''c1'')
   \<and> calls (fst (process_feedback submit_succeeds
        (fst (ask_question rag_answers empty_state ''What is X?'')) 1)) =
      calls (fst (ask_question rag_answers empty_state ''What is X?'')) @
        [SubmitFeedbackCall (PStr ''c1'') 1]"
    by auto
  from conversation_id_round_trip [where rag = rag_answers and w = empty_state
      and question = "''What is X?''"
      and ?w2.0 = "fst (ask_question rag_answers empty_state ''What is X?'')"
      and submit_feedback = submit_raises and feedback = 1, OF a refl]
  have r2: "snd (process_feedback submit_raises
        (fst (ask_question rag_answers empty_state ''What is X?'')) 1) =
      Inl (HTTPException 500 (PStr ''Error processing your feedback''))"
    by (auto simp add: submit_raises_def)
  from r1 r2 show ?thesis by simp
qed

text \<open>
  Without the amendment the statement fails: when \<^verbatim>\<open>rag\<close> returns a result whose
  \<^verbatim>\<open>id\<close> is the empty string, \<^verbatim>\<open>ask_question\<close> returns it as \<^verbatim>\<open>conversation_id\<close>,
  and the next \<^verbatim>\<open>process_feedback\<close> raises the 400 and passes no id to the collaborator.
\<close>

theorem blank_conversation_id_counterexample:
  "snd (ask_question rag_blank_id empty_state ''What is X?'') = Inr (PDict
        [(''conversation_id'', PStr ''''),
         (''answer'', PStr ''X is a letter''),
         (''relevance'', PStr ''RELEVANT''),
         (''response_time'', PFloat 3 (-1)),
         (''total_tokens'', PInt 120),
         (''estimated_cost'', PFloat 5 (-12))])
   \<and> snd (process_feedback submit_succeeds
        (fst (ask_question rag_blank_id empty_state ''What is X?'')) 1) =
      Inl (HTTPException 400 (PStr ''No active conversation found''))
   \<and> calls (fst (process_feedback submit_succeeds
        (fst (ask_question rag_blank_id empty_state ''What is X?'')) 1)) =
      [RagCall ''What is X?'']"
proof -
  have a: "snd (ask_question rag_blank_id empty_state ''What is X?'') = Inr (PDict
        [(''conversation_id'', PStr ''''),
         (''answer'', PStr ''X is a letter''),
         (''relevance'', PStr ''RELEVANT''),
         (''response_time'', PFloat 3 (-1)),
         (''total_tokens'', PInt 120),
         (''estimated_cost'', PFloat 5 (-12))])"
    by (simp add: ask_question_outcome ask_question_try_outcome and_then_def
        ask_response_def rag_blank_id_def blank_id_answer_def)
  have s: "session (fst (ask_question rag_blank_id empty_state ''What is X?''))
      ''conversation_id'' = Some (PStr '''')"
    by (simp add: ask_question_session and_then_def rag_blank_id_def blank_id_answer_def)
  have n: "\<not> truthy (case session (fst (ask_question rag_blank_id empty_state ''What is X?''))
      ''conversation_id'' of None \<Rightarrow> PNone | Some v \<Rightarrow> v)"
    by (simp add: s)
  have c: "calls (fst (ask_question rag_blank_id empty_state ''What is X?'')) =
      [RagCall ''What is X?'']"
    by (simp add: ask_question_calls empty_state_def)
  from a c show ?thesis
    by (simp add: process_feedback_no_conversation [OF n])
qed

text \<open>
  Claim C2, amended. In a state reached from the empty one by serving any sequence of
  requests: when the session has no \<^verbatim>\<open>conversation_id\<close>, \<^verbatim>\<open>process_feedback\<close> raises 400
  \<^verbatim>\<open>No active conversation found\<close> for every feedback value, valid or not, and returns
  the state untouched (nothing logged, no collaborator called). And when
  \<^verbatim>\<open>process_feedback\<close> returns a body or calls the persistence collaborator, one of the
  requests served before was an \<^verbatim>\<open>/ask\<close> that passed the key check and whose \<^verbatim>\<open>rag\<close>
  call returned a result with an \<^verbatim>\<open>id\<close>: the id the session now holds. That \<^verbatim>\<open>/ask\<close>
  stored the id; it need not have returned.
\<close>

theorem feedback_never_cold:
  assumes "w = serve_all env empty_state rs"
  shows "(session w ''conversation_id'' = None \<longrightarrow>
            process_feedback submit_feedback w feedback =
              (w, Inl (HTTPException 400 (PStr ''No active conversation found''))))
     \<and> ((\<exists>body. snd (process_feedback submit_feedback w feedback) = Inr body) \<or>
         calls (fst (process_feedback submit_feedback w feedback)) \<noteq> calls w \<longrightarrow>
          (\<exists>r \<in> set rs. \<exists>header question rag answer_data cid.
             r = Ask header question rag \<and>
             get_api_key env (api_key_header header) = Inr (api_key_header header) \<and>
             rag question = Inr answer_data \<and> subscript answer_data ''id'' = Inr cid \<and>
             session w ''conversation_id'' = Some cid \<and> truthy cid))"
proof (intro conjI impI)
  assume "session w ''conversation_id'' = None"
  then show "process_feedback submit_feedback w feedback =
      (w, Inl (HTTPException 400 (PStr ''No active conversation found'')))"
    by (simp add: process_feedback_no_conversation)
next
  assume "(\<exists>body. snd (process_feedback submit_feedback w feedback) = Inr body) \<or>
          calls (fst (process_feedback submit_feedback w feedback)) \<noteq> calls w"
  then have "\<exists>cid. session w ''conversation_id'' = Some cid \<and> truthy cid"
    using process_feedback_returns [of submit_feedback w feedback]
      process_feedback_calls [of submit_feedback w feedback]
    by blast
  then obtain cid where cid: "session w ''conversation_id'' = Some cid" "truthy cid"
    by blast
  from cid(1) assms
  have "session (serve_all env empty_state rs) ''conversation_id'' = Some cid"
    by simp
  from serve_all_session [OF this]
  have "\<exists>r \<in> set rs. \<exists>header question rag answer_data.
        r = Ask header question rag \<and>
        get_api_key env (api_key_header header) = Inr (api_key_header header) \<and>
        rag question = Inr answer_data \<and> subscript answer_data ''id'' = Inr cid"
    by (simp add: empty_state_def)
  with cid show "\<exists>r \<in> set rs. \<exists>header question rag answer_data cid.
             r = Ask header question rag \<and>
             get_api_key env (api_key_header header) = Inr (api_key_header header) \<and>
             rag question = Inr answer_data \<and> subscript answer_data ''id'' = Inr cid \<and>
             session w ''conversation_id'' = Some cid \<and> truthy cid"
    by blast
qed

theorem feedback_never_cold_witness:
  "process_feedback submit_succeeds (serve_all no_env empty_state []) 0 =
     (serve_all no_env empty_state [],
      Inl (HTTPException 400 (PStr ''No active conversation found'')))
   \<and> snd (process_feedback submit_succeeds
        (serve_all no_env empty_state [Ask None ''What is X?'' rag_answers]) (-1)) =
       Inr (PDict [(''message'', PStr ''Feedback received and saved successfully'')])
   \<and> (\<exists>r \<in> set [Ask None ''What is X?'' rag_answers].
        \<exists>header question rag answer_data cid.
          r = Ask header question rag \<and>
          get_api_key no_env (api_key_header header) = Inr (api_key_header header) \<and>
          rag question = Inr answer_data \<and> subscript answer_data ''id'' = Inr cid \<and>
          session (serve_all no_env empty_state [Ask None ''What is X?'' rag_answers])
            ''conversation_id'' = Some cid \<and> truthy cid)"
proof -
  have e: "session (serve_all no_env empty_state []) ''conversation_id'' = None"
    by (simp add: empty_state_def)
  have s: "session (serve_all no_env empty_state [Ask None ''What is X?'' rag_answers])
      ''conversation_id'' = Some (PStr ''c1'')"
    by (simp add: ask_route_def api_key_header_def get_api_key_def ask_question_session
        and_then_def rag_answers_def sample_answer_def)
  have a: "snd (process_feedback submit_succeeds
        (serve_all no_env empty_state [Ask None ''What is X?'' rag_answers]) (-1)) =
       Inr (PDict [(''message'', PStr ''Feedback received and saved successfully'')])"
  proof -
    have t: "truthy (PStr ''c1'')" by simp
    have f: "(-1::int) = -1 \<or> (-1::int) = 1" by simp
    show ?thesis
      unfolding process_feedback_submitted [where submit_feedback = submit_succeeds, OF s t f]
      by (simp add: submit_succeeds_def and_then_def)
  qed
  from feedback_never_cold [where env = no_env and rs = "[]" and submit_feedback = submit_succeeds
      and feedback = 0, OF refl, THEN conjunct1, THEN mp, OF e]
  have r1: "process_feedback submit_succeeds (serve_all no_env empty_state []) 0 =
     (serve_all no_env empty_state [],
      Inl (HTTPException 400 (PStr ''No active conversation found'')))" .
  from a have h: "(\<exists>body. snd (process_feedback submit_succeeds
        (serve_all no_env empty_state [Ask None ''What is X?'' rag_answers]) (-1)) = Inr body) \<or>
      calls (fst (process_feedback submit_succeeds
        (serve_all no_env empty_state [Ask None ''What is X?'' rag_answers]) (-1))) \<noteq>
      calls (serve_all no_env empty_state [Ask None ''What is X?'' rag_answers])"
    by blast
  from feedback_never_cold [where env = no_env and rs = "[Ask None ''What is X?'' rag_answers]"
      and submit_feedback = submit_succeeds and feedback = "-1", OF refl,
      THEN conjunct2, THEN mp, OF h]
  have r2: "\<exists>r \<in> set [Ask None ''What is X?'' rag_answers].
        \<exists>header question rag answer_data cid.
          r = Ask header question rag \<and>
          get_api_key no_env (api_key_header header) = Inr (api_key_header header) \<and>
          rag question = Inr answer_data \<and> subscript answer_data ''id'' = Inr cid \<and>
          session (serve_all no_env empty_state [Ask None ''What is X?'' rag_answers])
            ''conversation_id'' = Some cid \<and> truthy cid" .
  from r1 a r2 show ?thesis by (intro conjI)
qed

text \<open>
  Without the amendment the statement fails: \<^verbatim>\<open>ask_question\<close> stores the id before it
  builds the response, so an \<^verbatim>\<open>/ask\<close> whose \<^verbatim>\<open>rag\<close> result has an \<^verbatim>\<open>id\<close> and no
  \<^verbatim>\<open>answer\<close> is answered with the 500, and the \<^verbatim>\<open>/feedback\<close> after it is accepted.
\<close>

theorem feedback_after_failed_ask_counterexample:
  "snd (serve no_env empty_state (Ask None ''What is X?'' rag_id_only)) =
      Inl (HTTPException 500 (PStr ''Error processing your question''))
   \<and> snd (process_feedback submit_succeeds
        (serve_all no_env empty_state [Ask None ''What is X?'' rag_id_only]) 1) =
      Inr (PDict [(''message'', PStr ''Feedback received and saved successfully'')])
   \<and> calls (fst (process_feedback submit_succeeds
        (serve_all no_env empty_state [Ask None ''What is X?'' rag_id_only]) 1)) =
      [RagCall ''What is X?'', SubmitFeedbackCall (PStr ''c9'') 1]"
proof -
  have g: "get_api_key no_env (api_key_header None) = Inr None"
    by (simp add: api_key_header_def get_api_key_def)
  have q: "snd (ask_question rag_id_only empty_state ''What is X?'') =
      Inl (HTTPException 500 (PStr ''Error processing your question''))"
    by (simp add: ask_question_outcome ask_question_try_outcome and_then_def
        ask_response_def rag_id_only_def)
  have w: "serve_all no_env empty_state [Ask None ''What is X?'' rag_id_only] =
      fst (ask_question rag_id_only empty_state ''What is X?'')"
    by (simp add: ask_route_def g)
  have s: "session (fst (ask_question rag_id_only empty_state ''What is X?''))
      ''conversation_id'' = Some (PStr ''c9'')"
    by (simp add: ask_question_session and_then_def rag_id_only_def)
  have c: "calls (fst (ask_question rag_id_only empty_state ''What is X?'')) =
      [RagCall ''What is X?'']"
    by (simp add: ask_question_calls empty_state_def)
  have t: "truthy (PStr ''c9'')" by simp
  have f: "(1::int) = -1 \<or> (1::int) = 1" by simp
  have r1: "snd (serve no_env empty_state (Ask None ''What is X?'' rag_id_only)) =
      Inl (HTTPException 500 (PStr ''Error processing your question''))"
    by (simp add: ask_route_def g q)
  have r2: "snd (process_feedback submit_succeeds
        (fst (ask_question rag_id_only empty_state ''What is X?'')) 1) =
      Inr (PDict [(''message'', PStr ''Feedback received and saved successfully'')])"
    unfolding process_feedback_submitted [where submit_feedback = submit_succeeds, OF s t f]
    by (simp add: submit_succeeds_def and_then_def)
  have r3: "calls (fst (process_feedback submit_succeeds
        (fst (ask_question rag_id_only empty_state ''What is X?'')) 1)) =
      [RagCall ''What is X?'', SubmitFeedbackCall (PStr ''c9'') 1]"
    unfolding process_feedback_submitted_calls
      [where submit_feedback = submit_succeeds, OF s t f]
    by (simp add: c)
  from r1 r2 r3 show ?thesis unfolding w by (intro conjI)
qed

subsection \<open>The outcomes of \<^verbatim>\<open>/feedback\<close>\<close>

text \<open>
  Claim C10. The session check of \<^verbatim>\<open>process_feedback\<close> tests the truth value: a session
  whose \<^verbatim>\<open>conversation_id\<close> is present and falsy, the empty string for one, is answered
  as a session without the key is: 400 \<^verbatim>\<open>No active conversation found\<close>, with the state
  returned untouched, so that nothing is logged and no collaborator is called.
\<close>

theorem falsy_conversation_id_is_no_conversation:
  "(session w ''conversation_id'' = Some v \<and> \<not> truthy v \<longrightarrow>
      process_feedback submit_feedback w feedback =
        (w, Inl (HTTPException 400 (PStr ''No active conversation found''))))
   \<and> (session w ''conversation_id'' = Some (PStr '''') \<longrightarrow>
      process_feedback submit_feedback w feedback =
        (w, Inl (HTTPException 400 (PStr ''No active conversation found''))))
   \<and> (session w ''conversation_id'' = None \<longrightarrow>
      process_feedback submit_feedback w feedback =
        (w, Inl (HTTPException 400 (PStr ''No active conversation found''))))"
  by (simp add: process_feedback_no_conversation)

theorem falsy_conversation_id_is_no_conversation_witness:
  "session session_blank_id ''conversation_id'' = Some (PStr '''')
   \<and> process_feedback submit_succeeds session_blank_id 1 =
        (session_blank_id, Inl (HTTPException 400 (PStr ''No active conversation found'')))
   \<and> session empty_state ''conversation_id'' = None
   \<and> process_feedback submit_succeeds empty_state 1 =
        (empty_state, Inl (HTTPException 400 (PStr ''No active conversation found'')))"
proof -
  have s: "session session_blank_id ''conversation_id'' = Some (PStr '''')"
    by (simp add: session_blank_id_def)
  have e: "session empty_state ''conversation_id'' = None"
    by (simp add: empty_state_def)
  note r = falsy_conversation_id_is_no_conversation
  from r [THEN conjunct2, THEN conjunct1, THEN mp, OF s]
    r [THEN conjunct2, THEN conjunct2, THEN mp, OF e] s e
  show ?thesis by blast
qed

text \<open>
  Claim C5. When the session passes the check (it holds a truthy \<^verbatim>\<open>conversation_id\<close>) and
  the feedback value is an integer other than -1 and 1, \<^verbatim>\<open>process_feedback\<close> raises 400
  \<^verbatim>\<open>Invalid feedback value. Must be -1 or 1\<close> and has called no collaborator.
\<close>

theorem invalid_feedback_value_rejected:
  assumes "session w ''conversation_id'' = Some cid" and "truthy cid"
    and "feedback \<noteq> -1" and "feedback \<noteq> 1"
  shows "snd (process_feedback submit_feedback w feedback) =
           Inl (HTTPException 400 (PStr ''Invalid feedback value. Must be -1 or 1''))
         \<and> calls (fst (process_feedback submit_feedback w feedback)) = calls w"
  using assms by (simp add: process_feedback_invalid_value logging_info_def)

theorem invalid_feedback_value_rejected_witness:
  "session session_c1 ''conversation_id'' = Some (PStr ''c1'') \<and> truthy (PStr ''c1'')
   \<and> snd (process_feedback submit_succeeds session_c1 0) =
        Inl (HTTPException 400 (PStr ''Invalid feedback value. Must be -1 or 1''))
   \<and> snd (process_feedback submit_succeeds session_c1 2) =
        Inl (HTTPException 400 (PStr ''Invalid feedback value. Must be -1 or 1''))
   \<and> snd (process_feedback submit_succeeds session_c1 (-5)) =
        Inl (HTTPException 400 (PStr ''Invalid feedback value. Must be -1 or 1''))
   \<and> calls (fst (process_feedback submit_succeeds session_c1 0)) = calls session_c1"
proof -
  have s: "session session_c1 ''conversation_id'' = Some (PStr ''c1'')"
    by (simp add: session_c1_def)
  have t: "truthy (PStr ''c1'')" by simp
  note r = invalid_feedback_value_rejected [OF s t, where submit_feedback = submit_succeeds]
  have "(0::int) \<noteq> -1" "(0::int) \<noteq> 1" "(2::int) \<noteq> -1" "(2::int) \<noteq> 1"
    "(-5::int) \<noteq> -1" "(-5::int) \<noteq> 1" by simp_all
  then show ?thesis using s t r [of 0] r [of 2] r [of "-5"] by blast
qed

text \<open>
  Claim C6, amended. When the session and value checks pass and \<^verbatim>\<open>submit_feedback\<close>
  returns a result with a \<^verbatim>\<open>status\<close>: if the status is \<^verbatim>\<open>success\<close>,
  \<^verbatim>\<open>process_feedback\<close> returns the body with the one key \<^verbatim>\<open>message\<close> and the text
  \<^verbatim>\<open>Feedback received and saved successfully\<close>; if it is anything else,
  \<^verbatim>\<open>process_feedback\<close> raises 500 with the result's own \<^verbatim>\<open>message\<close> as detail, except
  that a message of \<^verbatim>\<open>None\<close> gives the detail \<^verbatim>\<open>Internal Server Error\<close>.
\<close>

theorem feedback_result_mapping:
  assumes "session w ''conversation_id'' = Some cid" and "truthy cid"
    and "feedback = -1 \<or> feedback = 1"
    and "submit_feedback cid feedback = Inr result"
    and "subscript result ''status'' = Inr status"
  shows "(status = PStr ''success'' \<longrightarrow>
            snd (process_feedback submit_feedback w feedback) =
              Inr (PDict [(''message'', PStr ''Feedback received and saved successfully'')]))
         \<and> (status \<noteq> PStr ''success'' \<and> subscript result ''message'' = Inr message \<longrightarrow>
            snd (process_feedback submit_feedback w feedback) =
              Inl (HTTPException 500
                (if message = PNone then PStr ''Internal Server Error'' else message)))"
proof -
  have t: "snd (process_feedback submit_feedback w feedback) =
      (case (if status = PStr ''success''
             then Inr (PDict [(''message'', PStr ''Feedback received and saved successfully'')])
             else and_then (subscript result ''message'') (\<lambda>message.
                    Inl (HTTPException_500 message))) of
         Inl e \<Rightarrow>
           if is_HTTPException e then Inl e
           else Inl (HTTPException 500 (PStr ''Error processing your feedback''))
       | Inr body \<Rightarrow> Inr body)"
    using assms(4,5)
    by (simp add: process_feedback_submitted [OF assms(1,2,3)] and_then_def)
  show ?thesis
  proof (intro conjI impI)
    assume "status = PStr ''success''"
    with t show "snd (process_feedback submit_feedback w feedback) =
              Inr (PDict [(''message'', PStr ''Feedback received and saved successfully'')])"
      by simp
  next
    assume "status \<noteq> PStr ''success'' \<and> subscript result ''message'' = Inr message"
    with t have "snd (process_feedback submit_feedback w feedback) =
        Inl (HTTPException_500 message)"
      by (simp add: and_then_def)
    then show "snd (process_feedback submit_feedback w feedback) =
        Inl (HTTPException 500
          (if message = PNone then PStr ''Internal Server Error'' else message))"
      by (simp add: HTTPException_500_def)
  qed
qed

theorem feedback_result_mapping_witness:
  "snd (process_feedback submit_succeeds session_c1 1) =
     Inr (PDict [(''message'', PStr ''Feedback received and saved successfully'')])
   \<and> snd (process_feedback submit_reports_error session_c1 (-1)) =
     Inl (HTTPException 500 (PStr ''X''))"
proof -
  have s: "session session_c1 ''conversation_id'' = Some (PStr ''c1'')"
    by (simp add: session_c1_def)
  have t: "truthy (PStr ''c1'')" by simp
  have f1: "(1::int) = -1 \<or> (1::int) = 1" and f2: "(-1::int) = -1 \<or> (-1::int) = 1"
    by simp_all
  have a1: "submit_succeeds (PStr ''c1'') 1 =
      Inr (PDict [(''status'', PStr ''success''), (''message'', PStr ''Feedback saved'')])"
    by (simp add: submit_succeeds_def)
  have a2: "submit_reports_error (PStr ''c1'') (-1) =
      Inr (PDict [(''status'', PStr ''error''), (''message'', PStr ''X'')])"
    by (simp add: submit_reports_error_def)
  have b1: "subscript (PDict [(''status'', PStr ''success''), (''message'', PStr ''Feedback saved'')])
      ''status'' = Inr (PStr ''success'')" by simp
  have b2: "subscript (PDict [(''status'', PStr ''error''), (''message'', PStr ''X'')])
      ''status'' = Inr (PStr ''error'')" by simp
  have c2: "PStr ''error'' \<noteq> PStr ''success'' \<and>
      subscript (PDict [(''status'', PStr ''error''), (''message'', PStr ''X'')]) ''message'' =
        Inr (PStr ''X'')" by simp
  from feedback_result_mapping [where submit_feedback = submit_succeeds
      and cid = "PStr ''c1''" and feedback = 1, OF s t f1 a1 b1, THEN conjunct1]
  have r1: "snd (process_feedback submit_succeeds session_c1 1) =
     Inr (PDict [(''message'', PStr ''Feedback received and saved successfully'')])"
    by simp
  from feedback_result_mapping [where submit_feedback = submit_reports_error
      and cid = "PStr ''c1''" and feedback = "-1", OF s t f2 a2 b2,
      THEN conjunct2, THEN mp, OF c2]
  have r2: "snd (process_feedback submit_reports_error session_c1 (-1)) =
     Inl (HTTPException 500 (PStr ''X''))" by simp
  from r1 r2 show ?thesis by (rule conjI)
qed

text \<open>
  Without the amendment the statement fails: for a result with the status \<^verbatim>\<open>error\<close>
  and the message \<^verbatim>\<open>None\<close> the detail is not the message but the phrase of the status.
\<close>

theorem none_message_counterexample:
  "submit_reports_none (PStr ''c1'') 1 =
      Inr (PDict [(''status'', PStr ''error''), (''message'', PNone)])
   \<and> snd (process_feedback submit_reports_none session_c1 1) =
      Inl (HTTPException 500 (PStr ''Internal Server Error''))"
proof -
  have s: "session session_c1 ''conversation_id'' = Some (PStr ''c1'')"
    by (simp add: session_c1_def)
  have t: "truthy (PStr ''c1'')" by simp
  have f: "(1::int) = -1 \<or> (1::int) = 1" by simp
  have "snd (process_feedback submit_reports_none session_c1 1) =
      Inl (HTTPException 500 (PStr ''Internal Server Error''))"
    unfolding process_feedback_submitted [where submit_feedback = submit_reports_none, OF s t f]
    by (simp add: submit_reports_none_def and_then_def HTTPException_500_def)
  then show ?thesis by (simp add: submit_reports_none_def)
qed

text \<open>
  Claim C8, amended. The two 400s of \<^verbatim>\<open>process_feedback\<close> and its 500 with the
  collaborator's message (the phrase of the status when that message is \<^verbatim>\<open>None\<close>)
  leave the handler unchanged. An exception raised by
  \<^verbatim>\<open>submit_feedback\<close> leaves it unchanged when it is an \<^verbatim>\<open>HTTPException\<close>, and as the
  500 with the fixed detail \<^verbatim>\<open>Error processing your feedback\<close> when it is not; and so
  does every exception raised in the \<^verbatim>\<open>try\<close> block.
\<close>

theorem feedback_exception_policy:
  "(\<not> truthy (case session w ''conversation_id'' of None \<Rightarrow> PNone | Some v \<Rightarrow> v) \<longrightarrow>
      snd (process_feedback submit_feedback w feedback) =
        Inl (HTTPException 400 (PStr ''No active conversation found'')))
   \<and> (session w ''conversation_id'' = Some cid \<and> truthy cid \<and>
       feedback \<noteq> -1 \<and> feedback \<noteq> 1 \<longrightarrow>
      snd (process_feedback submit_feedback w feedback) =
        Inl (HTTPException 400 (PStr ''Invalid feedback value. Must be -1 or 1'')))
   \<and> (session w ''conversation_id'' = Some cid \<and> truthy cid \<and>
       (feedback = -1 \<or> feedback = 1) \<and>
       submit_feedback cid feedback = Inr result \<and>
       subscript result ''status'' = Inr status \<and> status \<noteq> PStr ''success'' \<and>
       subscript result ''message'' = Inr message \<longrightarrow>
      snd (process_feedback submit_feedback w feedback) =
        Inl (HTTPException 500
          (if message = PNone then PStr ''Internal Server Error'' else message)))
   \<and> (session w ''conversation_id'' = Some cid \<and> truthy cid \<and>
       (feedback = -1 \<or> feedback = 1) \<and>
       submit_feedback cid feedback = Inl e \<longrightarrow>
      snd (process_feedback submit_feedback w feedback) =
        (if is_HTTPException e then Inl e
         else Inl (HTTPException 500 (PStr ''Error processing your feedback''))))
   \<and> (snd (process_feedback_try submit_feedback w feedback) = Inl e' \<longrightarrow>
      snd (process_feedback submit_feedback w feedback) =
        (if is_HTTPException e' then Inl e'
         else Inl (HTTPException 500 (PStr ''Error processing your feedback''))))"
proof (intro conjI impI)
  assume "\<not> truthy (case session w ''conversation_id'' of None \<Rightarrow> PNone | Some v \<Rightarrow> v)"
  then show "snd (process_feedback submit_feedback w feedback) =
        Inl (HTTPException 400 (PStr ''No active conversation found''))"
    by (simp add: process_feedback_no_conversation)
next
  assume "session w ''conversation_id'' = Some cid \<and> truthy cid \<and>
       feedback \<noteq> -1 \<and> feedback \<noteq> 1"
  then show "snd (process_feedback submit_feedback w feedback) =
        Inl (HTTPException 400 (PStr ''Invalid feedback value. Must be -1 or 1''))"
    by (simp add: process_feedback_invalid_value)
next
  assume a: "session w ''conversation_id'' = Some cid \<and> truthy cid \<and>
       (feedback = -1 \<or> feedback = 1) \<and>
       submit_feedback cid feedback = Inr result \<and>
       subscript result ''status'' = Inr status \<and> status \<noteq> PStr ''success'' \<and>
       subscript result ''message'' = Inr message"
  then have "session w ''conversation_id'' = Some cid" "truthy cid"
    "feedback = -1 \<or> feedback = 1" by simp_all
  from process_feedback_submitted [OF this] a
  have "snd (process_feedback submit_feedback w feedback) = Inl (HTTPException_500 message)"
    by (simp add: and_then_def)
  then show "snd (process_feedback submit_feedback w feedback) =
      Inl (HTTPException 500
        (if message = PNone then PStr ''Internal Server Error'' else message))"
    by (simp add: HTTPException_500_def)
next
  assume a: "session w ''conversation_id'' = Some cid \<and> truthy cid \<and>
       (feedback = -1 \<or> feedback = 1) \<and>
       submit_feedback cid feedback = Inl e"
  then have "session w ''conversation_id'' = Some cid" "truthy cid"
    "feedback = -1 \<or> feedback = 1" by simp_all
  from process_feedback_submitted [OF this] a
  show "snd (process_feedback submit_feedback w feedback) =
        (if is_HTTPException e then Inl e
         else Inl (HTTPException 500 (PStr ''Error processing your feedback'')))"
    by (simp add: and_then_def)
next
  assume "snd (process_feedback_try submit_feedback w feedback) = Inl e'"
  then show "snd (process_feedback submit_feedback w feedback) =
        (if is_HTTPException e' then Inl e'
         else Inl (HTTPException 500 (PStr ''Error processing your feedback'')))"
    by (simp add: process_feedback_outcome)
qed

theorem feedback_exception_policy_witness:
  "snd (process_feedback submit_succeeds empty_state 1) =
      Inl (HTTPException 400 (PStr ''No active conversation found''))
   \<and> snd (process_feedback submit_succeeds session_c1 2) =
      Inl (HTTPException 400 (PStr ''Invalid feedback value. Must be -1 or 1''))
   \<and> snd (process_feedback submit_reports_error session_c1 1) =
      Inl (HTTPException 500 (PStr ''X''))
   \<and> snd (process_feedback submit_raises session_c1 1) =
      Inl (HTTPException 500 (PStr ''Error processing your feedback''))
   \<and> snd (process_feedback submit_raises_http session_c1 1) =
      Inl (HTTPException 503 (PStr ''database unavailable''))"
proof -
  have h1: "\<not> truthy (case session empty_state ''conversation_id'' of
      None \<Rightarrow> PNone | Some v \<Rightarrow> v)"
    by (simp add: empty_state_def)
  have h2: "session session_c1 ''conversation_id'' = Some (PStr ''c1'') \<and> truthy (PStr ''c1'') \<and>
      (2::int) \<noteq> -1 \<and> (2::int) \<noteq> 1"
    by (simp add: session_c1_def)
  have h3: "session session_c1 ''conversation_id'' = Some (PStr ''c1'') \<and> truthy (PStr ''c1'') \<and>
      ((1::int) = -1 \<or> (1::int) = 1) \<and>
      submit_reports_error (PStr ''c1'') 1 =
        Inr (PDict [(''status'', PStr ''error''), (''message'', PStr ''X'')]) \<and>
      subscript (PDict [(''status'', PStr ''error''), (''message'', PStr ''X'')]) ''status'' =
        Inr (PStr ''error'') \<and>
      PStr ''error'' \<noteq> PStr ''success'' \<and>
      subscript (PDict [(''status'', PStr ''error''), (''message'', PStr ''X'')]) ''message'' =
        Inr (PStr ''X'')"
    by (simp add: session_c1_def submit_reports_error_def)
  have h4: "session session_c1 ''conversation_id'' = Some (PStr ''c1'') \<and> truthy (PStr ''c1'') \<and>
      ((1::int) = -1 \<or> (1::int) = 1) \<and>
      submit_raises (PStr ''c1'') 1 =
        Inl (OtherError ''OperationalError'' ''database is locked'')"
    by (simp add: session_c1_def submit_raises_def)
  have h5: "session session_c1 ''conversation_id'' = Some (PStr ''c1'') \<and> truthy (PStr ''c1'') \<and>
      ((1::int) = -1 \<or> (1::int) = 1) \<and>
      submit_raises_http (PStr ''c1'') 1 =
        Inl (HTTPException 503 (PStr ''database unavailable''))"
    by (simp add: session_c1_def submit_raises_http_def)
  from feedback_exception_policy [where w = empty_state and submit_feedback = submit_succeeds
      and feedback = 1, THEN conjunct1, THEN mp, OF h1]
  have r1: "snd (process_feedback submit_succeeds empty_state 1) =
      Inl (HTTPException 400 (PStr ''No active conversation found''))" .
  from feedback_exception_policy [where w = session_c1 and submit_feedback = submit_succeeds
      and feedback = 2 and cid = "PStr ''c1''",
      THEN conjunct2, THEN conjunct1, THEN mp, OF h2]
  have r2: "snd (process_feedback submit_succeeds session_c1 2) =
      Inl (HTTPException 400 (PStr ''Invalid feedback value. Must be -1 or 1''))" .
  from feedback_exception_policy [where w = session_c1
      and submit_feedback = submit_reports_error and feedback = 1 and cid = "PStr ''c1''"
      and result = "PDict [(''status'', PStr ''error''), (''message'', PStr ''X'')]"
      and status = "PStr ''error''" and message = "PStr ''X''",
      THEN conjunct2, THEN conjunct2, THEN conjunct1, THEN mp, OF h3]
  have r3: "snd (process_feedback submit_reports_error session_c1 1) =
      Inl (HTTPException 500 (PStr ''X''))" by simp
  from feedback_exception_policy [where w = session_c1
      and submit_feedback = submit_raises and feedback = 1 and cid = "PStr ''c1''"
      and e = "OtherError ''OperationalError'' ''database is locked''",
      THEN conjunct2, THEN conjunct2, THEN conjunct2, THEN conjunct1, THEN mp, OF h4]
  have r4: "snd (process_feedback submit_raises session_c1 1) =
      Inl (HTTPException 500 (PStr ''Error processing your feedback''))" by simp
  from feedback_exception_policy [where w = session_c1
      and submit_feedback = submit_raises_http and feedback = 1 and cid = "PStr ''c1''"
      and e = "HTTPException 503 (PStr ''database unavailable'')",
      THEN conjunct2, THEN conjunct2, THEN conjunct2, THEN conjunct1, THEN mp, OF h5]
  have r5: "snd (process_feedback submit_raises_http session_c1 1) =
      Inl (HTTPException 503 (PStr ''database unavailable''))" by simp
  from r1 r2 r3 r4 r5 show ?thesis by (intro conjI)
qed

text \<open>
  Without the amendment the statement fails: a \<^verbatim>\<open>submit_feedback\<close> that raises an
  \<^verbatim>\<open>HTTPException\<close> with status 503 is not answered with the fixed 500; the clause
  \<^verbatim>\<open>except HTTPException: raise\<close> passes its exception on.
\<close>

theorem collaborator_http_exception_counterexample:
  "submit_raises_http (PStr ''c1'') 1 = Inl (HTTPException 503 (PStr ''database unavailable''))
   \<and> snd (process_feedback submit_raises_http session_c1 1) =
       Inl (HTTPException 503 (PStr ''database unavailable''))
   \<and> snd (process_feedback submit_raises_http session_c1 1) \<noteq>
       Inl (HTTPException 500 (PStr ''Error processing your feedback''))"
proof -
  have s: "session session_c1 ''conversation_id'' = Some (PStr ''c1'')"
    by (simp add: session_c1_def)
  have "snd (process_feedback submit_raises_http session_c1 1) =
       Inl (HTTPException 503 (PStr ''database unavailable''))"
    by (simp add: process_feedback_submitted [OF s] submit_raises_http_def and_then_def)
  then show ?thesis by (simp add: submit_raises_http_def)
qed

end
